theory Spec2Isabelle
  imports Main "HOL-Library.Word"
begin

section \<open>Errors\<close>

text \<open>
  Go error values. The three sentinels are the package-level variables the code compares
  against (\<open>statemachine.ErrTerminated\<close>, \<open>repo.ErrNotFound\<close>,
  \<open>datatransfer.ErrPause\<close>); \<open>ErrNew msg\<close> is any other error, with its text;
  \<open>ErrWrap prefix e\<close> is \<open>fmt.Errorf(prefix + "%w", e)\<close>.
\<close>

datatype err =
    ErrTerminated
  | ErrNotFound
  | ErrPause
  | ErrNew string
  | ErrWrap string err

text \<open>\<open>err.Error()\<close>; the texts of the sentinels are those of their libraries.\<close>

fun Error_text :: "err \<Rightarrow> string" where
  "Error_text ErrTerminated = ''normal shutdown of state machine''"
| "Error_text ErrNotFound = ''record not found''"
| "Error_text ErrPause = ''pause channel''"
| "Error_text (ErrNew msg) = msg"
| "Error_text (ErrWrap prefix e) = prefix @ Error_text e"

text \<open>\<open>errors.Is(e, target)\<close>: \<open>e\<close> or an error it wraps is \<open>target\<close>.\<close>

fun errors_Is :: "err \<Rightarrow> err \<Rightarrow> bool" where
  "errors_Is (ErrWrap prefix e) target = (ErrWrap prefix e = target \<or> errors_Is e target)"
| "errors_Is e target = (e = target)"

text \<open>
  \<open>fmt.Errorf(prefix + "%w", e)\<close> where \<open>e\<close> may be nil: a nil operand is printed
  as \<open>%!w(<nil>)\<close> and nothing is wrapped.
\<close>

definition Errorf :: "string \<Rightarrow> err option \<Rightarrow> err" where
  "Errorf prefix e = (case e of None \<Rightarrow> ErrNew (prefix @ ''%!w(<nil>)'') | Some e' \<Rightarrow> ErrWrap prefix e')"

section \<open>Data model\<close>

type_synonym cid = string
type_synonym address = string
type_synonym peer_ID = string
type_synonym bytes = "8 word list"
type_synonym TokenAmount = int
type_synonym DealID = "64 word"
type_synonym ChannelID = string

text \<open>
  \<open>retrievalmarket.DealStatus\<close>: the members this code reads or writes.
  \<open>DealStatusNew\<close> is the zero value of the type.
\<close>

datatype DealStatus =
    DealStatusNew
  | DealStatusUnsealing
  | DealStatusUnsealed
  | DealStatusFundsNeededUnseal
  | DealStatusAccepted
  | DealStatusRejected
  | DealStatusDealNotFound
  | DealStatusErrored
  | DealStatusCancelled
  | DealStatusCompleted

record Params =
  Selector :: "bytes option"
  PieceCID :: "cid option"
  PricePerByte :: TokenAmount
  PaymentInterval :: "64 word"
  PaymentIntervalIncrease :: "64 word"
  UnsealPrice :: TokenAmount

record DealProposal =
  PayloadCID :: cid
  ID :: DealID
  Params :: Params

text \<open>
  \<open>ProviderDealState\<close>. \<open>ChannelID\<close> is a pointer (\<open>None\<close> is nil);
  \<open>FundsReceived\<close> is a big integer whose zero value is unset (\<open>None\<close>).
\<close>

record ProviderDealState =
  DealProposal :: DealProposal
  SelStorageProposalCid :: cid
  ChannelID :: "ChannelID option"
  Status :: DealStatus
  Receiver :: peer_ID
  TotalSent :: "64 word"
  FundsReceived :: "TokenAmount option"
  Message :: string
  CurrentInterval :: "64 word"
  LegacyProtocol :: bool

text \<open>The storage deal a retrieval is served from: the fields the handler reads.\<close>

record StorageProposal =
  Proposal_PieceCID :: cid
  PieceSize :: "64 word"
  Provider :: address

record MinerDeal =
  Proposal :: StorageProposal
  ProposalCid :: cid
  SectorNumber :: "64 word"
  Offset :: "64 word"

text \<open>\<open>PaddedPieceSize.Unpadded\<close>: \<open>s - s / 128\<close> on unsigned 64-bit integers.\<close>

definition Unpadded :: "64 word \<Rightarrow> 64 word" where
  "Unpadded s = s - s div 128"

text \<open>
  \<open>gateway.UnsealState\<close> is a string type; the loop tells apart \<open>Finished\<close>,
  \<open>Failed\<close> and every other value (in progress, or the empty zero value).
\<close>

datatype UnsealState =
    UnsealStateFailed
  | UnsealStateFinished
  | UnsealStateOther string

text \<open>The arguments of one \<open>SectorsUnsealPiece\<close> call.\<close>

record unseal_request =
  req_miner :: address
  req_pieceCid :: cid
  req_sector :: "64 word"
  req_offset :: "64 word"
  req_size :: "64 word"
  req_dest :: string

text \<open>
  What the \<open>select\<close> at the end of one loop round receives: the ticker's tick, or
  \<open>timeOutCtx.Done()\<close>, closed either because the 12 hours have passed
  (\<open>DeadlineExpired\<close>: the enclosing context is still live) or because the enclosing
  context has ended with the error \<open>ctx.Err()\<close> (\<open>ParentDone\<close>).
\<close>

datatype select_outcome =
    TickerFired
  | DeadlineExpired
  | ParentDone err

text \<open>The calls the code makes on its collaborators, in the order it makes them.\<close>

datatype event =
    EvSaveDeal ProviderDealState "err option"
  | EvGetDeal cid
  | EvFindStorageForRead string
  | EvFindStorageForWrite int
  | EvGetPieceTransfer string
  | EvSectorsUnsealPiece unseal_request
  | EvSelect
  | EvPrepareBlockstore DealID cid
  | EvResumeDataTransfer ChannelID
  | EvDeleteStore DealID
  | EvCloseDataTransfer ChannelID
  | EvGetPieceInfoFromCid cid "cid option"
  | EvMinerProviderConfig address
  | EvGetAsk address
  | EvDealFilter

text \<open>The snapshots the deal repository has accepted, oldest first.\<close>

fun persisted :: "event list \<Rightarrow> ProviderDealState list" where
  "persisted [] = []"
| "persisted (EvSaveDeal d None # evs) = d # persisted evs"
| "persisted (ev # evs) = persisted evs"

fun is_save_call :: "event \<Rightarrow> bool" where
  "is_save_call (EvSaveDeal d r) = True"
| "is_save_call ev = False"

fun is_unseal_call :: "event \<Rightarrow> bool" where
  "is_unseal_call (EvSectorsUnsealPiece r) = True"
| "is_unseal_call ev = False"

section \<open>Retrieval deal handler\<close>

text \<open>
  The collaborators of \<open>RetrievalDealHandler\<close>, each as the answer it gives to a call.
  An answer \<open>(value, error)\<close> whose value the code reads only when the error is nil is a
  sum; \<open>FindStorageForRead\<close> and \<open>SectorsUnsealPiece\<close> keep both components, as
  the code reads both. A collaborator answers a call by the arguments of the call; the
  remote unseal service and the \<open>select\<close> are asked once per loop round and answer
  by round number as well, from 0.
\<close>

record RetrievalDealHandler =
  retrievalDealStore_SaveDeal :: "ProviderDealState \<Rightarrow> err option"
  storageDealRepo_GetDeal :: "cid \<Rightarrow> err + MinerDeal"
  pieceStorageMgr_FindStorageForRead :: "string \<Rightarrow> string option \<times> err option"
  pieceStorageMgr_FindStorageForWrite :: "int \<Rightarrow> err + string"
  wps_GetPieceTransfer :: "string \<Rightarrow> string \<Rightarrow> err + string"
  gatewayMarketClient_SectorsUnsealPiece :: "nat \<Rightarrow> unseal_request \<Rightarrow> UnsealState \<times> err option"
  select_wait :: "nat \<Rightarrow> select_outcome"
  env_PrepareBlockstore :: "DealID \<Rightarrow> cid \<Rightarrow> err option"
  env_ResumeDataTransfer :: "ChannelID \<Rightarrow> err option"
  env_DeleteStore :: "DealID \<Rightarrow> err option"
  env_CloseDataTransfer :: "ChannelID \<Rightarrow> err option"

text \<open>
  A handler method returns the calls it made, the deal as it left it (the deal is passed
  by pointer and updated in place) and its error result.
\<close>

type_synonym handler_result = "event list \<times> ProviderDealState \<times> err option"

definition SaveDeal :: "RetrievalDealHandler \<Rightarrow> ProviderDealState \<Rightarrow> handler_result" where
  "SaveDeal p deal =
     (let r = retrievalDealStore_SaveDeal p deal in ([EvSaveDeal deal r], deal, r))"

text \<open>\<open>Error\<close>: the message is replaced only when an error is given.\<close>

definition Error :: "RetrievalDealHandler \<Rightarrow> ProviderDealState \<Rightarrow> err option \<Rightarrow> handler_result" where
  "Error p deal e =
     (let deal1 = deal\<lparr>Status := DealStatusErrored\<rparr>;
          deal2 = (case e of None \<Rightarrow> deal1 | Some e' \<Rightarrow> deal1\<lparr>Message := Error_text e'\<rparr>)
      in SaveDeal p deal2)"

definition after :: "event list \<Rightarrow> handler_result \<Rightarrow> handler_result" where
  "after evs r = (case r of (evs', deal, e) \<Rightarrow> (evs @ evs', deal, e))"

definition CancelDeal :: "RetrievalDealHandler \<Rightarrow> ProviderDealState \<Rightarrow> handler_result" where
  "CancelDeal p deal =
     (let ev1 = [EvDeleteStore (ID (DealProposal deal))] in
      case env_DeleteStore p (ID (DealProposal deal)) of
        Some e \<Rightarrow> after ev1 (Error p deal None)
      | None \<Rightarrow>
          (case ChannelID deal of
             None \<Rightarrow> after ev1 (SaveDeal p (deal\<lparr>Status := DealStatusCancelled\<rparr>))
           | Some ch \<Rightarrow>
               (let ev2 = ev1 @ [EvCloseDataTransfer ch] in
                case env_CloseDataTransfer p ch of
                  None \<Rightarrow> after ev2 (SaveDeal p (deal\<lparr>Status := DealStatusCancelled\<rparr>))
                | Some e \<Rightarrow>
                    if \<not> errors_Is e ErrTerminated then after ev2 (Error p deal None)
                    else after ev2 (SaveDeal p (deal\<lparr>Status := DealStatusCancelled\<rparr>)))))"

text \<open>
  The polling loop \<open>CheckLoop\<close> of \<open>UnsealData\<close>. It either leaves the loop
  (the condition \<open>state != Finished\<close> fails, or \<open>break CheckLoop\<close>) or returns from
  \<open>UnsealData\<close> with the value of \<open>err\<close>.
\<close>

datatype loop_exit = LoopDone | LoopReturn "err option"

definition errRetry :: nat where
  "errRetry = 5"

partial_function (option) CheckLoop ::
  "RetrievalDealHandler \<Rightarrow> unseal_request \<Rightarrow> UnsealState \<Rightarrow> nat \<Rightarrow> nat \<Rightarrow> event list
     \<Rightarrow> (event list \<times> loop_exit) option" where
  "CheckLoop p req state errRetryCount n evs =
     (if state = UnsealStateFinished then Some (evs, LoopDone)
      else
        let answer = gatewayMarketClient_SectorsUnsealPiece p n req;
            state1 = fst answer;
            evs1 = evs @ [EvSectorsUnsealPiece req];
            err1 = map_option (ErrWrap (''unseal piece '' @ req_pieceCid req @ '': '')) (snd answer);
            errRetryCount1 = (if snd answer \<noteq> None then errRetryCount + 1 else errRetryCount)
        in
          if snd answer \<noteq> None \<and> errRetryCount1 > errRetry then Some (evs1, LoopReturn err1)
          else if state1 = UnsealStateFailed then
            Some (evs1, LoopReturn (Some (Errorf (''unseal piece '' @ req_pieceCid req @ '' fail: '') err1)))
          else if state1 = UnsealStateFinished then Some (evs1, LoopDone)
          else
            (case select_wait p n of
               TickerFired \<Rightarrow> CheckLoop p req state1 errRetryCount1 (n + 1) (evs1 @ [EvSelect])
             | DeadlineExpired \<Rightarrow> Some (evs1 @ [EvSelect], LoopReturn None)
             | ParentDone e \<Rightarrow> Some (evs1 @ [EvSelect], LoopReturn (Some e))))"

text \<open>
  Lines 137 to 159 of \<open>UnsealData\<close>, which both branches of the presence test reach:
  prepare the blockstore, persist \<open>Unsealed\<close>, resume the transfer.
\<close>

definition UnsealData_prepare ::
  "RetrievalDealHandler \<Rightarrow> ProviderDealState \<Rightarrow> MinerDeal \<Rightarrow> handler_result" where
  "UnsealData_prepare p providerDeal deal =
     (let ev1 = [EvPrepareBlockstore (ID (DealProposal providerDeal)) (Proposal_PieceCID (Proposal deal))] in
      case env_PrepareBlockstore p (ID (DealProposal providerDeal)) (Proposal_PieceCID (Proposal deal)) of
        Some e \<Rightarrow> after ev1 (CancelDeal p providerDeal)
      | None \<Rightarrow>
          (let providerDeal1 = providerDeal\<lparr>Status := DealStatusUnsealed\<rparr>;
               saved = retrievalDealStore_SaveDeal p providerDeal1;
               ev2 = ev1 @ [EvSaveDeal providerDeal1 saved]
           in case saved of
                Some e \<Rightarrow> (ev2, providerDeal1, Some e)
              | None \<Rightarrow>
                  (case ChannelID providerDeal1 of
                     None \<Rightarrow> after ev2 (SaveDeal p providerDeal1)
                   | Some ch \<Rightarrow>
                       (case env_ResumeDataTransfer p ch of
                          None \<Rightarrow> after (ev2 @ [EvResumeDataTransfer ch]) (SaveDeal p providerDeal1)
                        | Some e \<Rightarrow>
                            after (ev2 @ [EvResumeDataTransfer ch])
                              (SaveDeal p (providerDeal1\<lparr>Status := DealStatusErrored\<rparr>))))))"

definition unseal_request_of :: "MinerDeal \<Rightarrow> string \<Rightarrow> unseal_request" where
  "unseal_request_of deal pieceTransfer =
     \<lparr>req_miner = Provider (Proposal deal),
      req_pieceCid = Proposal_PieceCID (Proposal deal),
      req_sector = SectorNumber deal,
      req_offset = Unpadded (Offset deal),
      req_size = Unpadded (PieceSize (Proposal deal)),
      req_dest = pieceTransfer\<rparr>"

text \<open>\<open>UnsealData\<close>; \<open>None\<close> is a polling loop that never ends.\<close>

definition UnsealData :: "RetrievalDealHandler \<Rightarrow> ProviderDealState \<Rightarrow> handler_result option" where
  "UnsealData p providerDeal0 =
     (let providerDeal = providerDeal0\<lparr>Status := DealStatusUnsealing\<rparr>;
          saved = retrievalDealStore_SaveDeal p providerDeal;
          ev1 = [EvSaveDeal providerDeal saved]
      in case saved of
           Some e \<Rightarrow> Some (ev1, providerDeal, Some e)
         | None \<Rightarrow>
             (let ev2 = ev1 @ [EvGetDeal (SelStorageProposalCid providerDeal)] in
              case storageDealRepo_GetDeal p (SelStorageProposalCid providerDeal) of
                Inl e \<Rightarrow> Some (ev2, providerDeal, Some e)
              | Inr deal \<Rightarrow>
                  (let pieceCid = Proposal_PieceCID (Proposal deal);
                       st = fst (pieceStorageMgr_FindStorageForRead p pieceCid);
                       ev3 = ev2 @ [EvFindStorageForRead pieceCid]
                   in if st \<noteq> None then Some (after ev3 (UnsealData_prepare p providerDeal deal))
                      else
                        (let ev4 = ev3 @ [EvFindStorageForWrite (sint (PieceSize (Proposal deal)))] in
                         case pieceStorageMgr_FindStorageForWrite p (sint (PieceSize (Proposal deal))) of
                           Inl e \<Rightarrow>
                             Some (ev4, providerDeal,
                                   Some (ErrWrap (''failed to find storage to write '' @ pieceCid @ '': '') e))
                         | Inr wps \<Rightarrow>
                             (let ev5 = ev4 @ [EvGetPieceTransfer pieceCid] in
                              case wps_GetPieceTransfer p wps pieceCid of
                                Inl e \<Rightarrow>
                                  Some (ev5, providerDeal,
                                        Some (ErrWrap (''get piece transfer for '' @ pieceCid @ '': '') e))
                              | Inr pieceTransfer \<Rightarrow>
                                  (case CheckLoop p (unseal_request_of deal pieceTransfer)
                                          UnsealStateFailed 0 0 ev5 of
                                     None \<Rightarrow> None
                                   | Some (ev6, LoopReturn e) \<Rightarrow> Some (ev6, providerDeal, e)
                                   | Some (ev6, LoopDone) \<Rightarrow>
                                       Some (after ev6 (UnsealData_prepare p providerDeal deal))))))))"

section \<open>Provider request validator\<close>

record RetrievalAsk =
  Ask_PricePerByte :: TokenAmount
  Ask_UnsealPrice :: TokenAmount
  Ask_PaymentInterval :: "64 word"
  Ask_PaymentIntervalIncrease :: "64 word"

record DealResponse =
  Response_Status :: DealStatus
  Response_ID :: DealID
  PaymentOwed :: "TokenAmount option"
  Response_Message :: string

text \<open>Of a miner's configuration the code reads the payment address; \<open>[]\<close> is the empty address.\<close>

record MinerConfig =
  RetrievalPaymentAddress :: address

type_synonym ipld_Node = string

text \<open>
  The collaborators of \<open>ProviderRequestValidator\<close>. \<open>GetAsk\<close> keeps both components
  of its answer: the loop assigns the ask before it looks at the error. \<open>rdf\<close> is the
  optional deal filter (\<open>None\<close> is nil). \<open>dagcbor_Encode\<close> and \<open>allSelectorBytes\<close>
  are the selector encoder and the encoding of the explore-all selector computed in
  \<open>init\<close>.
\<close>

record ProviderRequestValidator =
  pieceInfo_GetPieceInfoFromCid :: "cid \<Rightarrow> cid option \<Rightarrow> err + MinerDeal list"
  cfg_MinerProviderConfig :: "address \<Rightarrow> err + MinerConfig"
  retrievalAsk_GetAsk :: "address \<Rightarrow> RetrievalAsk option \<times> err option"
  rdf :: "(ProviderDealState \<Rightarrow> bool \<times> string \<times> err option) option"
  retrievalDeal_SaveDeal :: "ProviderDealState \<Rightarrow> err option"
  dagcbor_Encode :: "ipld_Node \<Rightarrow> err + bytes"
  allSelectorBytes :: bytes

text \<open>\<open>cbg.CborNull\<close> and \<open>Params.SelectorSpecified\<close>.\<close>

definition CborNull :: bytes where
  "CborNull = [0xf6]"

definition SelectorSpecified :: "Params \<Rightarrow> bool" where
  "SelectorSpecified ps = (case Selector ps of None \<Rightarrow> False | Some raw \<Rightarrow> raw \<noteq> CborNull)"

text \<open>
  Modelled from the spec: \<open>CheckDealParams\<close>, which \<open>acceptDeal\<close> calls, is defined in
  a file of the repository that is not among the sources. The spec has it compare the
  requested price per byte, payment interval, payment interval increase and unseal price
  with the ask's published terms and refuse any requested term less favourable than the
  published one: a lower price, a longer interval.
\<close>

definition CheckDealParams ::
  "RetrievalAsk \<Rightarrow> TokenAmount \<Rightarrow> 64 word \<Rightarrow> 64 word \<Rightarrow> TokenAmount \<Rightarrow> err option" where
  "CheckDealParams ask pricePerByte paymentInterval paymentIntervalIncrease unsealPrice =
     (if pricePerByte < Ask_PricePerByte ask then Some (ErrNew ''Price per byte too low'')
      else if paymentInterval > Ask_PaymentInterval ask then Some (ErrNew ''Payment interval too large'')
      else if paymentIntervalIncrease > Ask_PaymentIntervalIncrease ask then
        Some (ErrNew ''Payment interval increase too large'')
      else if unsealPrice < Ask_UnsealPrice ask then Some (ErrNew ''Unseal price too small'')
      else None)"

definition runDealDecisionLogic ::
  "ProviderRequestValidator \<Rightarrow> ProviderDealState \<Rightarrow> event list \<times> bool \<times> string \<times> err option" where
  "runDealDecisionLogic rv deal =
     (case rdf rv of None \<Rightarrow> ([], True, [], None) | Some f \<Rightarrow> ([EvDealFilter], f deal))"

text \<open>
  The loop of \<open>acceptDeal\<close> over the candidate storage deals. It carries the deal (whose
  \<open>SelStorageProposalCid\<close> it sets) and the variable \<open>ask\<close>. The \<open>err\<close> it assigns
  is the one declared inside the loop body, so no error leaves the loop.
\<close>

fun acceptDeal_loop ::
  "ProviderRequestValidator \<Rightarrow> MinerDeal list \<Rightarrow> ProviderDealState \<Rightarrow> RetrievalAsk option
     \<Rightarrow> event list \<times> ProviderDealState \<times> RetrievalAsk option" where
  "acceptDeal_loop rv [] deal ask = ([], deal, ask)"
| "acceptDeal_loop rv (minerDeal # minerDeals) deal ask =
     (let provider = Provider (Proposal minerDeal) in
      case cfg_MinerProviderConfig rv provider of
        Inl e \<Rightarrow>
          (case acceptDeal_loop rv minerDeals deal ask of
             (evs, r) \<Rightarrow> (EvMinerProviderConfig provider # evs, r))
      | Inr minerCfg \<Rightarrow>
          if RetrievalPaymentAddress minerCfg = [] then
            (case acceptDeal_loop rv minerDeals deal ask of
               (evs, r) \<Rightarrow> (EvMinerProviderConfig provider # evs, r))
          else
            (let deal1 = deal\<lparr>SelStorageProposalCid := ProposalCid minerDeal\<rparr>;
                 answer = retrievalAsk_GetAsk rv provider
             in if snd answer \<noteq> None then
                  (case acceptDeal_loop rv minerDeals deal1 (fst answer) of
                     (evs, r) \<Rightarrow> (EvMinerProviderConfig provider # EvGetAsk provider # evs, r))
                else ([EvMinerProviderConfig provider, EvGetAsk provider], deal1, fst answer)))"

text \<open>
  \<open>acceptDeal\<close>: the calls made, the deal as updated, the status and the error.
  When the loop leaves \<open>ask\<close> nil the error returned is the outer \<open>err\<close>, which is nil
  there.
\<close>

definition acceptDeal ::
  "ProviderRequestValidator \<Rightarrow> ProviderDealState
     \<Rightarrow> event list \<times> ProviderDealState \<times> DealStatus \<times> err option" where
  "acceptDeal rv deal =
     (let ev1 = [EvGetPieceInfoFromCid (PayloadCID (DealProposal deal)) (PieceCID (Params (DealProposal deal)))] in
      case pieceInfo_GetPieceInfoFromCid rv (PayloadCID (DealProposal deal))
             (PieceCID (Params (DealProposal deal))) of
        Inl e \<Rightarrow>
          if errors_Is e ErrNotFound then (ev1, deal, DealStatusDealNotFound, Some e)
          else (ev1, deal, DealStatusErrored, Some e)
      | Inr minerDeals \<Rightarrow>
          (case acceptDeal_loop rv minerDeals deal None of
             (ev2, deal1, ask) \<Rightarrow>
               (case ask of
                  None \<Rightarrow> (ev1 @ ev2, deal1, DealStatusErrored, None)
                | Some a \<Rightarrow>
                    (case CheckDealParams a (PricePerByte (Params (DealProposal deal1)))
                            (PaymentInterval (Params (DealProposal deal1)))
                            (PaymentIntervalIncrease (Params (DealProposal deal1)))
                            (UnsealPrice (Params (DealProposal deal1))) of
                       Some e \<Rightarrow> (ev1 @ ev2, deal1, DealStatusRejected, Some e)
                     | None \<Rightarrow>
                         (case runDealDecisionLogic rv deal1 of
                            (ev3, accepted, reason, derr) \<Rightarrow>
                              (case derr of
                                 Some e \<Rightarrow> (ev1 @ ev2 @ ev3, deal1, DealStatusErrored, Some e)
                               | None \<Rightarrow>
                                   if \<not> accepted then
                                     (ev1 @ ev2 @ ev3, deal1, DealStatusRejected, Some (ErrNew reason))
                                   else if UnsealPrice (Params (DealProposal deal1)) > 0 then
                                     (ev1 @ ev2 @ ev3, deal1, DealStatusFundsNeededUnseal, None)
                                   else (ev1 @ ev2 @ ev3, deal1, DealStatusAccepted, None)))))))"

text \<open>The deal state \<open>validatePull\<close> builds for a new request; the other fields are zero values.\<close>

definition new_deal_state :: "peer_ID \<Rightarrow> DealProposal \<Rightarrow> bool \<Rightarrow> ProviderDealState" where
  "new_deal_state receiver proposal legacyProtocol =
     \<lparr>DealProposal = proposal,
      SelStorageProposalCid = [],
      ChannelID = None,
      Status = DealStatusNew,
      Receiver = receiver,
      TotalSent = 0,
      FundsReceived = None,
      Message = [],
      CurrentInterval = PaymentInterval (Params proposal),
      LegacyProtocol = legacyProtocol\<rparr>"

text \<open>
  The bytes the encoded selector is compared with: the proposal's own selector when it
  specifies one, the explore-all selector otherwise.
\<close>

definition bytesCompare :: "ProviderRequestValidator \<Rightarrow> DealProposal \<Rightarrow> bytes" where
  "bytesCompare rv proposal =
     (if SelectorSpecified (Params proposal) then
        (case Selector (Params proposal) of Some raw \<Rightarrow> raw | None \<Rightarrow> [])
      else allSelectorBytes rv)"

type_synonym validate_result = "event list \<times> DealResponse option \<times> err option"

definition validatePull ::
  "ProviderRequestValidator \<Rightarrow> bool \<Rightarrow> peer_ID \<Rightarrow> DealProposal \<Rightarrow> bool \<Rightarrow> cid \<Rightarrow> ipld_Node
     \<Rightarrow> validate_result" where
  "validatePull rv isRestart receiver proposal legacyProtocol baseCid selector =
     (if PayloadCID proposal \<noteq> baseCid then ([], None, Some (ErrNew ''incorrect CID for this proposal''))
      else
        case dagcbor_Encode rv selector of
          Inl e \<Rightarrow> ([], None, Some e)
        | Inr buf \<Rightarrow>
            (if buf \<noteq> bytesCompare rv proposal then
               ([], None, Some (ErrNew ''incorrect selector for this proposal''))
             else if isRestart then ([], None, None)
             else
             (case acceptDeal rv (new_deal_state receiver proposal legacyProtocol) of
                (evs, pds, status, err) \<Rightarrow>
                  (let response =
                         \<lparr>Response_Status = status,
                          Response_ID = ID proposal,
                          PaymentOwed =
                            (if status = DealStatusFundsNeededUnseal then
                               Some (UnsealPrice (Params (DealProposal pds)))
                             else None),
                          Response_Message = []\<rparr>
                   in case err of
                        Some e \<Rightarrow> (evs, Some (response\<lparr>Response_Message := Error_text e\<rparr>), Some e)
                      | None \<Rightarrow>
                          (let pds1 =
                                 (if UnsealPrice (Params (DealProposal pds)) > 0 then
                                    pds\<lparr>Status := DealStatusFundsNeededUnseal, TotalSent := 0\<rparr>
                                  else pds\<lparr>TotalSent := 0, FundsReceived := Some 0\<rparr>);
                               saved = retrievalDeal_SaveDeal rv pds1
                           in case saved of
                                Some e \<Rightarrow>
                                  (evs @ [EvSaveDeal pds1 saved],
                                   Some (response\<lparr>Response_Message := Error_text e\<rparr>), Some e)
                              | None \<Rightarrow>
                                  (evs @ [EvSaveDeal pds1 saved], Some response, Some ErrPause))))))"

section \<open>Voucher selector\<close>

text \<open>
  Vouchers are handed around by pointer. A pointer is an address into a store of
  vouchers; the list the payment channel API returns and the map the function builds
  hold addresses. The API never returns a nil pointer. Of a voucher the function reads
  the lane and the amount.
\<close>

record SignedVoucher =
  Lane :: "64 word"
  Nonce :: "64 word"
  Amount :: int

type_synonym voucher_ptr = nat
type_synonym voucher_store = "voucher_ptr \<Rightarrow> SignedVoucher"

record BestSpendableAPI =
  PaychVoucherList :: "address \<Rightarrow> err + voucher_ptr list"
  PaychVoucherCheckSpendable :: "address \<Rightarrow> voucher_ptr \<Rightarrow> err + bool"

fun BestSpendableByLane_loop ::
  "BestSpendableAPI \<Rightarrow> voucher_store \<Rightarrow> address \<Rightarrow> voucher_ptr list \<Rightarrow> (64 word \<rightharpoonup> voucher_ptr)
     \<Rightarrow> err + (64 word \<rightharpoonup> voucher_ptr)" where
  "BestSpendableByLane_loop api store ch [] bestByLane = Inr bestByLane"
| "BestSpendableByLane_loop api store ch (voucher # vouchers) bestByLane =
     (case PaychVoucherCheckSpendable api ch voucher of
        Inl e \<Rightarrow> Inl e
      | Inr spendable \<Rightarrow>
          if spendable then
            (case bestByLane (Lane (store voucher)) of
               None \<Rightarrow>
                 BestSpendableByLane_loop api store ch vouchers
                   (bestByLane(Lane (store voucher) \<mapsto> voucher))
             | Some best \<Rightarrow>
                 if Amount (store voucher) > Amount (store best) then
                   BestSpendableByLane_loop api store ch vouchers
                     (bestByLane(Lane (store voucher) \<mapsto> voucher))
                 else BestSpendableByLane_loop api store ch vouchers bestByLane)
          else BestSpendableByLane_loop api store ch vouchers bestByLane)"

text \<open>\<open>BestSpendableByLane\<close> returns its result and the voucher store as it leaves it.\<close>

definition BestSpendableByLane ::
  "BestSpendableAPI \<Rightarrow> voucher_store \<Rightarrow> address
     \<Rightarrow> (err + (64 word \<rightharpoonup> voucher_ptr)) \<times> voucher_store" where
  "BestSpendableByLane api store ch =
     (case PaychVoucherList api ch of
        Inl e \<Rightarrow> (Inl e, store)
      | Inr vouchers \<Rightarrow> (BestSpendableByLane_loop api store ch vouchers Map.empty, store))"

text \<open>
  The selection as the specification words it: among the spendable vouchers of a lane,
  in list order, the first whose amount no other exceeds.
\<close>

definition spendable_on_lane ::
  "BestSpendableAPI \<Rightarrow> voucher_store \<Rightarrow> address \<Rightarrow> voucher_ptr list \<Rightarrow> 64 word \<Rightarrow> voucher_ptr list" where
  "spendable_on_lane api store ch vouchers lane =
     filter (\<lambda>v. PaychVoucherCheckSpendable api ch v = Inr True \<and> Lane (store v) = lane) vouchers"

definition first_maximal :: "voucher_store \<Rightarrow> voucher_ptr list \<Rightarrow> voucher_ptr option" where
  "first_maximal store vs = find (\<lambda>v. \<forall>u \<in> set vs. Amount (store u) \<le> Amount (store v)) vs"

definition best_spendable_spec ::
  "BestSpendableAPI \<Rightarrow> voucher_store \<Rightarrow> address \<Rightarrow> voucher_ptr list \<Rightarrow> (64 word \<rightharpoonup> voucher_ptr)" where
  "best_spendable_spec api store ch vouchers =
     (\<lambda>lane. first_maximal store (spendable_on_lane api store ch vouchers lane))"

section \<open>Auxiliary definitions\<close>

text \<open>
  A transient failure of the remote call: an error, together with a state that is neither
  \<open>Failed\<close> nor \<open>Finished\<close> (the zero value of the state, or a state in progress).
\<close>

definition transient_failure :: "UnsealState \<times> err option \<Rightarrow> bool" where
  "transient_failure answer =
     (snd answer \<noteq> None \<and> fst answer \<noteq> UnsealStateFailed \<and> fst answer \<noteq> UnsealStateFinished)"

text \<open>The calls of \<open>k\<close> loop rounds that end in the \<open>select\<close>.\<close>

fun poll_rounds :: "nat \<Rightarrow> unseal_request \<Rightarrow> event list" where
  "poll_rounds 0 req = []"
| "poll_rounds (Suc k) req = poll_rounds k req @ [EvSectorsUnsealPiece req, EvSelect]"

text \<open>The calls \<open>UnsealData\<close> has made when it enters the loop.\<close>

definition loop_entry_log :: "ProviderDealState \<Rightarrow> MinerDeal \<Rightarrow> event list" where
  "loop_entry_log providerDeal deal =
     [EvSaveDeal (providerDeal\<lparr>Status := DealStatusUnsealing\<rparr>) None,
      EvGetDeal (SelStorageProposalCid providerDeal),
      EvFindStorageForRead (Proposal_PieceCID (Proposal deal)),
      EvFindStorageForWrite (sint (PieceSize (Proposal deal))),
      EvGetPieceTransfer (Proposal_PieceCID (Proposal deal))]"

text \<open>
  The teardown of \<open>CancelDeal\<close> succeeds when the store is deleted and the channel, if
  there is one, is closed or reports that it has already terminated.
\<close>

definition close_tolerated :: "err option \<Rightarrow> bool" where
  "close_tolerated r = (case r of None \<Rightarrow> True | Some e \<Rightarrow> errors_Is e ErrTerminated)"

definition teardown_succeeds :: "RetrievalDealHandler \<Rightarrow> ProviderDealState \<Rightarrow> bool" where
  "teardown_succeeds p deal =
     (env_DeleteStore p (ID (DealProposal deal)) = None \<and>
      (case ChannelID deal of None \<Rightarrow> True | Some ch \<Rightarrow> close_tolerated (env_CloseDataTransfer p ch)))"

subsection \<open>Example inputs\<close>

text \<open>
  A deal with an open channel, its storage deal, and a handler whose piece is absent,
  whose remote unseal service fails five times before it finishes, and whose channel has
  already terminated when it is closed.
\<close>

definition example_proposal :: DealProposal where
  "example_proposal =
     \<lparr>PayloadCID = ''payload'', ID = 7,
      Params = \<lparr>Selector = None, PieceCID = None, PricePerByte = 1, PaymentInterval = 2,
                PaymentIntervalIncrease = 3, UnsealPrice = 10\<rparr>\<rparr>"

definition example_deal :: ProviderDealState where
  "example_deal =
     (new_deal_state ''receiver'' example_proposal False)
       \<lparr>SelStorageProposalCid := ''storage-proposal'', ChannelID := Some ''channel-1''\<rparr>"

definition example_storage_deal :: MinerDeal where
  "example_storage_deal =
     \<lparr>Proposal = \<lparr>Proposal_PieceCID = ''piece'', PieceSize = 2048, Provider = ''f01000''\<rparr>,
      ProposalCid = ''storage-proposal'', SectorNumber = 1, Offset = 0\<rparr>"

definition example_handler :: RetrievalDealHandler where
  "example_handler =
     \<lparr>retrievalDealStore_SaveDeal = (\<lambda>d. None),
      storageDealRepo_GetDeal = (\<lambda>c. Inr example_storage_deal),
      pieceStorageMgr_FindStorageForRead = (\<lambda>c. (None, Some (ErrNew ''unable to find piece in storage''))),
      pieceStorageMgr_FindStorageForWrite = (\<lambda>n. Inr ''store-1''),
      wps_GetPieceTransfer = (\<lambda>s c. Inr ''transfer''),
      gatewayMarketClient_SectorsUnsealPiece =
        (\<lambda>n r. if n < 5 then (UnsealStateOther [], Some (ErrNew ''gateway unavailable''))
               else (UnsealStateFinished, None)),
      select_wait = (\<lambda>n. TickerFired),
      env_PrepareBlockstore = (\<lambda>i c. None),
      env_ResumeDataTransfer = (\<lambda>ch. None),
      env_DeleteStore = (\<lambda>i. None),
      env_CloseDataTransfer = (\<lambda>ch. Some ErrTerminated)\<rparr>"

text \<open>The remote service stays in progress and the 12 hours pass in the third round.\<close>

definition stalled_handler :: RetrievalDealHandler where
  "stalled_handler =
     example_handler
       \<lparr>gatewayMarketClient_SectorsUnsealPiece := (\<lambda>n r. (UnsealStateOther ''Unsealing'', None)),
        select_wait := (\<lambda>n. if n < 2 then TickerFired else DeadlineExpired)\<rparr>"

text \<open>The piece is already in a backend.\<close>

definition present_handler :: RetrievalDealHandler where
  "present_handler =
     example_handler\<lparr>pieceStorageMgr_FindStorageForRead := (\<lambda>c. (Some ''store-1'', None))\<rparr>"

text \<open>The piece is present and the blockstore cannot be prepared.\<close>

definition unprepared_handler :: RetrievalDealHandler where
  "unprepared_handler =
     present_handler\<lparr>env_PrepareBlockstore := (\<lambda>i c. Some (ErrNew ''shard not loaded''))\<rparr>"

text \<open>
  A validator whose ask is the one of the repository's tests (unseal price 4), with no
  deal filter, for the example proposal (unseal price 10); and a deal filter that
  refuses every deal.
\<close>

definition example_ask :: RetrievalAsk where
  "example_ask =
     \<lparr>Ask_PricePerByte = 1, Ask_UnsealPrice = 4, Ask_PaymentInterval = 2,
      Ask_PaymentIntervalIncrease = 3\<rparr>"

definition example_validator :: ProviderRequestValidator where
  "example_validator =
     \<lparr>pieceInfo_GetPieceInfoFromCid = (\<lambda>c pc. Inr [example_storage_deal]),
      cfg_MinerProviderConfig = (\<lambda>a. Inr \<lparr>RetrievalPaymentAddress = ''f3payee''\<rparr>),
      retrievalAsk_GetAsk = (\<lambda>a. (Some example_ask, None)),
      rdf = None,
      retrievalDeal_SaveDeal = (\<lambda>d. None),
      dagcbor_Encode = (\<lambda>n. Inr [0xa0]),
      allSelectorBytes = [0xa0]\<rparr>"

definition refusing_filter :: "ProviderDealState \<Rightarrow> bool \<times> string \<times> err option" where
  "refusing_filter deal = (False, ''not accepting retrievals'', None)"

text \<open>The example proposal without an unseal price, and a validator whose ask asks for none.\<close>

definition free_proposal :: DealProposal where
  "free_proposal = example_proposal\<lparr>Params := (Params example_proposal)\<lparr>UnsealPrice := 0\<rparr>\<rparr>"

definition free_validator :: ProviderRequestValidator where
  "free_validator =
     example_validator\<lparr>retrievalAsk_GetAsk := (\<lambda>a. (Some (example_ask\<lparr>Ask_UnsealPrice := 0\<rparr>), None))\<rparr>"

text \<open>
  The choice the loop of \<open>BestSpendableByLane\<close> makes for one lane, as a fold over the
  spendable vouchers of the lane, from the lane's entry \<open>best\<close>.
\<close>

fun keep_best :: "voucher_store \<Rightarrow> voucher_ptr option \<Rightarrow> voucher_ptr list \<Rightarrow> voucher_ptr option" where
  "keep_best store best [] = best"
| "keep_best store best (v # vs) =
     keep_best store
       (case best of
          None \<Rightarrow> Some v
        | Some b \<Rightarrow> if Amount (store v) > Amount (store b) then Some v else Some b)
       vs"

text \<open>
  The example of the specification: two spendable vouchers on lane 1, of amounts 5 and 9,
  and a voucher on lane 2 that is not spendable.
\<close>

definition example_store :: voucher_store where
  "example_store v =
     (if v = 0 then \<lparr>Lane = 1, Nonce = 1, Amount = 5\<rparr>
      else if v = 1 then \<lparr>Lane = 1, Nonce = 2, Amount = 9\<rparr>
      else \<lparr>Lane = 2, Nonce = 1, Amount = 3\<rparr>)"

definition example_api :: BestSpendableAPI where
  "example_api =
     \<lparr>PaychVoucherList = (\<lambda>ch. Inr [0, 1, 2]),
      PaychVoucherCheckSpendable = (\<lambda>ch v. Inr (v \<noteq> 2))\<rparr>"

section \<open>Retrieval deal handler: proofs\<close>

subsection \<open>The polling loop and the teardown\<close>

lemma CheckLoop_retry:
  assumes "state \<noteq> UnsealStateFinished"
    and "transient_failure (gatewayMarketClient_SectorsUnsealPiece p n req)"
    and "c < errRetry"
    and "select_wait p n = TickerFired"
  shows "CheckLoop p req state c n evs =
         CheckLoop p req (fst (gatewayMarketClient_SectorsUnsealPiece p n req)) (Suc c) (Suc n)
           (evs @ [EvSectorsUnsealPiece req, EvSelect])"
  using assms by (subst CheckLoop.simps) (simp add: transient_failure_def Let_def)

lemma CheckLoop_finished:
  assumes "state \<noteq> UnsealStateFinished"
    and "gatewayMarketClient_SectorsUnsealPiece p n req = (UnsealStateFinished, None)"
  shows "CheckLoop p req state c n evs = Some (evs @ [EvSectorsUnsealPiece req], LoopDone)"
  using assms by (subst CheckLoop.simps) (simp add: Let_def)

lemma CheckLoop_exhausted:
  assumes "state \<noteq> UnsealStateFinished"
    and "snd (gatewayMarketClient_SectorsUnsealPiece p n req) = Some e"
    and "errRetry \<le> c"
  shows "CheckLoop p req state c n evs =
         Some (evs @ [EvSectorsUnsealPiece req],
               LoopReturn (Some (ErrWrap (''unseal piece '' @ req_pieceCid req @ '': '') e)))"
  using assms by (subst CheckLoop.simps) (simp add: Let_def)

lemma CheckLoop_waiting:
  assumes "state \<noteq> UnsealStateFinished"
    and "gatewayMarketClient_SectorsUnsealPiece p n req = (UnsealStateOther s, None)"
    and "select_wait p n = TickerFired"
  shows "CheckLoop p req state c n evs =
         CheckLoop p req (UnsealStateOther s) c (Suc n) (evs @ [EvSectorsUnsealPiece req, EvSelect])"
  using assms by (subst CheckLoop.simps) (simp add: Let_def)

lemma CheckLoop_deadline:
  assumes "state \<noteq> UnsealStateFinished"
    and "gatewayMarketClient_SectorsUnsealPiece p n req = (UnsealStateOther s, None)"
    and "select_wait p n = DeadlineExpired"
  shows "CheckLoop p req state c n evs =
         Some (evs @ [EvSectorsUnsealPiece req, EvSelect], LoopReturn None)"
  using assms by (subst CheckLoop.simps) (simp add: Let_def)

lemma CheckLoop_retries:
  assumes "\<forall>k<m. transient_failure (gatewayMarketClient_SectorsUnsealPiece p k req)"
    and "\<forall>k<m. select_wait p k = TickerFired"
    and "m \<le> errRetry"
  shows "CheckLoop p req UnsealStateFailed 0 0 evs =
         CheckLoop p req (if m = 0 then UnsealStateFailed else fst (gatewayMarketClient_SectorsUnsealPiece p (m - 1) req)) m m
           (evs @ poll_rounds m req)"
  using assms
proof (induction m)
  case 0
  then show ?case by simp
next
  case (Suc m)
  have st: "(if m = 0 then UnsealStateFailed else fst (gatewayMarketClient_SectorsUnsealPiece p (m - 1) req)) \<noteq> UnsealStateFinished"
    using Suc.prems(1) by (auto simp: transient_failure_def)
  have "CheckLoop p req UnsealStateFailed 0 0 evs =
     CheckLoop p req (if m = 0 then UnsealStateFailed else fst (gatewayMarketClient_SectorsUnsealPiece p (m - 1) req)) m m
           (evs @ poll_rounds m req)"
    using Suc by simp
  also have "\<dots> = CheckLoop p req (fst (gatewayMarketClient_SectorsUnsealPiece p m req)) (Suc m) (Suc m)
           ((evs @ poll_rounds m req) @ [EvSectorsUnsealPiece req, EvSelect])"
    using Suc.prems st by (intro CheckLoop_retry) auto
  also have "(evs @ poll_rounds m req) @ [EvSectorsUnsealPiece req, EvSelect] = evs @ poll_rounds (Suc m) req"
    by simp
  finally show ?case by simp
qed




lemma UnsealData_reaches_loop:
  assumes "retrievalDealStore_SaveDeal p (providerDeal\<lparr>Status := DealStatusUnsealing\<rparr>) = None"
    and "storageDealRepo_GetDeal p (SelStorageProposalCid providerDeal) = Inr deal"
    and "fst (pieceStorageMgr_FindStorageForRead p (Proposal_PieceCID (Proposal deal))) = None"
    and "pieceStorageMgr_FindStorageForWrite p (sint (PieceSize (Proposal deal))) = Inr wps"
    and "wps_GetPieceTransfer p wps (Proposal_PieceCID (Proposal deal)) = Inr pieceTransfer"
  shows "UnsealData p providerDeal =
         (case CheckLoop p (unseal_request_of deal pieceTransfer) UnsealStateFailed 0 0
                 [EvSaveDeal (providerDeal\<lparr>Status := DealStatusUnsealing\<rparr>) None,
                  EvGetDeal (SelStorageProposalCid providerDeal),
                  EvFindStorageForRead (Proposal_PieceCID (Proposal deal)),
                  EvFindStorageForWrite (sint (PieceSize (Proposal deal))),
                  EvGetPieceTransfer (Proposal_PieceCID (Proposal deal))] of
            None \<Rightarrow> None
          | Some (evs, LoopReturn e) \<Rightarrow> Some (evs, providerDeal\<lparr>Status := DealStatusUnsealing\<rparr>, e)
          | Some (evs, LoopDone) \<Rightarrow>
              Some (after evs (UnsealData_prepare p (providerDeal\<lparr>Status := DealStatusUnsealing\<rparr>) deal)))"
  using assms by (simp add: UnsealData_def Let_def)

lemma CancelDeal_result:
  "\<exists>evs. CancelDeal p deal =
     (evs @ [EvSaveDeal (deal\<lparr>Status := (if teardown_succeeds p deal then DealStatusCancelled else DealStatusErrored)\<rparr>)
               (retrievalDealStore_SaveDeal p (deal\<lparr>Status := (if teardown_succeeds p deal then DealStatusCancelled else DealStatusErrored)\<rparr>))],
      deal\<lparr>Status := (if teardown_succeeds p deal then DealStatusCancelled else DealStatusErrored)\<rparr>,
      retrievalDealStore_SaveDeal p (deal\<lparr>Status := (if teardown_succeeds p deal then DealStatusCancelled else DealStatusErrored)\<rparr>))"
  by (simp add: CancelDeal_def teardown_succeeds_def close_tolerated_def Error_def SaveDeal_def
        after_def Let_def split: option.splits)

lemma CancelDeal_no_unseal: "filter is_unseal_call (fst (CancelDeal p deal)) = []"
  by (simp add: CancelDeal_def Error_def SaveDeal_def after_def Let_def split: option.splits)

lemma UnsealData_prepare_no_unseal: "filter is_unseal_call (fst (UnsealData_prepare p providerDeal deal)) = []"
  using CancelDeal_no_unseal[of p providerDeal]
  by (cases "CancelDeal p providerDeal")
     (simp add: UnsealData_prepare_def SaveDeal_def after_def Let_def split: option.splits)





lemma example_deal_fields:
  "ID (DealProposal example_deal) = 7"
  "SelStorageProposalCid example_deal = ''storage-proposal''"
  "ChannelID example_deal = Some ''channel-1''"
  by (simp_all add: example_deal_def new_deal_state_def example_proposal_def)

lemma example_storage_deal_fields:
  "Proposal_PieceCID (Proposal example_storage_deal) = ''piece''"
  "sint (PieceSize (Proposal example_storage_deal)) = 2048"
  by (simp_all add: example_storage_deal_def)


subsection \<open>Properties of UnsealData and CancelDeal\<close>

text \<open>
  C1. When the loop is reached and the remote call fails transiently in each of the first
  five rounds, each followed by the ticker: if the sixth call reports \<open>Finished\<close>,
  the loop is left and \<open>UnsealData\<close> goes on to prepare the blockstore; if the sixth
  call fails too, \<open>UnsealData\<close> returns that error, wrapped. In both cases the remote
  service has been called six times and is not called again.
\<close>

theorem UnsealData_retry_bound:
  assumes "retrievalDealStore_SaveDeal p (providerDeal\<lparr>Status := DealStatusUnsealing\<rparr>) = None"
    and "storageDealRepo_GetDeal p (SelStorageProposalCid providerDeal) = Inr deal"
    and "fst (pieceStorageMgr_FindStorageForRead p (Proposal_PieceCID (Proposal deal))) = None"
    and "pieceStorageMgr_FindStorageForWrite p (sint (PieceSize (Proposal deal))) = Inr wps"
    and "wps_GetPieceTransfer p wps (Proposal_PieceCID (Proposal deal)) = Inr pieceTransfer"
    and "req = unseal_request_of deal pieceTransfer"
    and "\<forall>k<5. transient_failure (gatewayMarketClient_SectorsUnsealPiece p k req)"
    and "\<forall>k<5. select_wait p k = TickerFired"
  shows "(gatewayMarketClient_SectorsUnsealPiece p 5 req = (UnsealStateFinished, None) \<longrightarrow>
            UnsealData p providerDeal =
              Some (after (loop_entry_log providerDeal deal @ poll_rounds 5 req @ [EvSectorsUnsealPiece req])
                      (UnsealData_prepare p (providerDeal\<lparr>Status := DealStatusUnsealing\<rparr>) deal))) \<and>
         (\<forall>e. snd (gatewayMarketClient_SectorsUnsealPiece p 5 req) = Some e \<longrightarrow>
            UnsealData p providerDeal =
              Some (loop_entry_log providerDeal deal @ poll_rounds 5 req @ [EvSectorsUnsealPiece req],
                    providerDeal\<lparr>Status := DealStatusUnsealing\<rparr>,
                    Some (ErrWrap (''unseal piece '' @ req_pieceCid req @ '': '') e))) \<and>
         length (filter is_unseal_call
                   (loop_entry_log providerDeal deal @ poll_rounds 5 req @ [EvSectorsUnsealPiece req])) = 6"
proof -
  let ?ans = "gatewayMarketClient_SectorsUnsealPiece p"
  have entry: "UnsealData p providerDeal =
         (case CheckLoop p req UnsealStateFailed 0 0 (loop_entry_log providerDeal deal) of
            None \<Rightarrow> None
          | Some (evs, LoopReturn e) \<Rightarrow> Some (evs, providerDeal\<lparr>Status := DealStatusUnsealing\<rparr>, e)
          | Some (evs, LoopDone) \<Rightarrow>
              Some (after evs (UnsealData_prepare p (providerDeal\<lparr>Status := DealStatusUnsealing\<rparr>) deal)))"
    using UnsealData_reaches_loop[OF assms(1-5)] assms(6) by (simp add: loop_entry_log_def)
  have five: "CheckLoop p req UnsealStateFailed 0 0 (loop_entry_log providerDeal deal) =
              CheckLoop p req (fst (?ans 4 req)) 5 5 (loop_entry_log providerDeal deal @ poll_rounds 5 req)"
    using CheckLoop_retries[of 5 p req "loop_entry_log providerDeal deal"] assms(7,8)
    by (simp add: errRetry_def)
  have running: "fst (?ans 4 req) \<noteq> UnsealStateFinished"
    using assms(7) by (simp add: transient_failure_def)
  have finished: "UnsealData p providerDeal =
              Some (after (loop_entry_log providerDeal deal @ poll_rounds 5 req @ [EvSectorsUnsealPiece req])
                      (UnsealData_prepare p (providerDeal\<lparr>Status := DealStatusUnsealing\<rparr>) deal))"
    if "?ans 5 req = (UnsealStateFinished, None)"
    using entry five CheckLoop_finished[OF running that] by simp
  have exhausted: "UnsealData p providerDeal =
              Some (loop_entry_log providerDeal deal @ poll_rounds 5 req @ [EvSectorsUnsealPiece req],
                    providerDeal\<lparr>Status := DealStatusUnsealing\<rparr>,
                    Some (ErrWrap (''unseal piece '' @ req_pieceCid req @ '': '') e))"
    if "snd (?ans 5 req) = Some e" for e
    using entry five CheckLoop_exhausted[OF running that, of 5] by (simp add: errRetry_def)
  have count: "length (filter is_unseal_call
                   (loop_entry_log providerDeal deal @ poll_rounds 5 req @ [EvSectorsUnsealPiece req])) = 6"
    by (simp add: loop_entry_log_def eval_nat_numeral)
  show ?thesis using finished exhausted count by blast
qed

text \<open>The example handler fails five times and then finishes; a variant fails every time.\<close>

theorem UnsealData_retry_bound_witness:
  "UnsealData example_handler example_deal =
     Some (after (loop_entry_log example_deal example_storage_deal
                    @ poll_rounds 5 (unseal_request_of example_storage_deal ''transfer'')
                    @ [EvSectorsUnsealPiece (unseal_request_of example_storage_deal ''transfer'')])
             (UnsealData_prepare example_handler (example_deal\<lparr>Status := DealStatusUnsealing\<rparr>)
                example_storage_deal)) \<and>
   UnsealData
       (example_handler\<lparr>gatewayMarketClient_SectorsUnsealPiece :=
          (\<lambda>n r. (UnsealStateOther [], Some (ErrNew ''gateway unavailable'')))\<rparr>) example_deal =
     Some (loop_entry_log example_deal example_storage_deal
             @ poll_rounds 5 (unseal_request_of example_storage_deal ''transfer'')
             @ [EvSectorsUnsealPiece (unseal_request_of example_storage_deal ''transfer'')],
           example_deal\<lparr>Status := DealStatusUnsealing\<rparr>,
           Some (ErrWrap ''unseal piece piece: '' (ErrNew ''gateway unavailable'')))"
proof -
  let ?req = "unseal_request_of example_storage_deal ''transfer''"
  let ?p2 = "example_handler\<lparr>gatewayMarketClient_SectorsUnsealPiece :=
          (\<lambda>n r. (UnsealStateOther [], Some (ErrNew ''gateway unavailable'')))\<rparr>"
  have a: "UnsealData example_handler example_deal =
     Some (after (loop_entry_log example_deal example_storage_deal @ poll_rounds 5 ?req
                    @ [EvSectorsUnsealPiece ?req])
             (UnsealData_prepare example_handler (example_deal\<lparr>Status := DealStatusUnsealing\<rparr>)
                example_storage_deal))"
    using UnsealData_retry_bound[of example_handler example_deal example_storage_deal
        "''store-1''" "''transfer''" ?req]
    by (simp add: example_handler_def transient_failure_def)
  have b: "UnsealData ?p2 example_deal =
     Some (loop_entry_log example_deal example_storage_deal @ poll_rounds 5 ?req
             @ [EvSectorsUnsealPiece ?req],
           example_deal\<lparr>Status := DealStatusUnsealing\<rparr>,
           Some (ErrWrap (''unseal piece '' @ req_pieceCid ?req @ '': '') (ErrNew ''gateway unavailable'')))"
    using UnsealData_retry_bound[of ?p2 example_deal example_storage_deal
        "''store-1''" "''transfer''" ?req]
    by (simp add: example_handler_def transient_failure_def)
  show ?thesis using a b by (simp add: unseal_request_of_def example_storage_deal_def)
qed

text \<open>
  C2. The remote service stays in progress and the 12-hour deadline passes in the third
  round while the enclosing context is live: \<open>UnsealData\<close> returns a nil error and
  leaves the deal \<open>Unsealing\<close>.
\<close>

theorem UnsealData_deadline_returns_nil:
  "UnsealData stalled_handler example_deal =
     Some (loop_entry_log example_deal example_storage_deal
             @ poll_rounds 3 (unseal_request_of example_storage_deal ''transfer''),
           example_deal\<lparr>Status := DealStatusUnsealing\<rparr>, None)"
proof -
  let ?req = "unseal_request_of example_storage_deal ''transfer''"
  let ?log = "loop_entry_log example_deal example_storage_deal"
  have ans: "gatewayMarketClient_SectorsUnsealPiece stalled_handler n ?req = (UnsealStateOther ''Unsealing'', None)" for n
    by (simp add: stalled_handler_def)
  have "CheckLoop stalled_handler ?req UnsealStateFailed 0 0 ?log =
        CheckLoop stalled_handler ?req (UnsealStateOther ''Unsealing'') 0 (Suc 0)
          (?log @ [EvSectorsUnsealPiece ?req, EvSelect])"
    by (rule CheckLoop_waiting[OF _ ans]) (simp_all add: stalled_handler_def)
  also have "\<dots> = CheckLoop stalled_handler ?req (UnsealStateOther ''Unsealing'') 0 (Suc (Suc 0))
          ((?log @ [EvSectorsUnsealPiece ?req, EvSelect]) @ [EvSectorsUnsealPiece ?req, EvSelect])"
    by (rule CheckLoop_waiting[OF _ ans]) (simp_all add: stalled_handler_def)
  also have "\<dots> = Some (((?log @ [EvSectorsUnsealPiece ?req, EvSelect]) @ [EvSectorsUnsealPiece ?req, EvSelect])
                          @ [EvSectorsUnsealPiece ?req, EvSelect], LoopReturn None)"
    by (rule CheckLoop_deadline[OF _ ans]) (simp_all add: stalled_handler_def)
  finally have loop: "CheckLoop stalled_handler ?req UnsealStateFailed 0 0 ?log =
        Some (?log @ poll_rounds 3 ?req, LoopReturn None)"
    by (simp add: eval_nat_numeral)
  have "UnsealData stalled_handler example_deal =
        (case CheckLoop stalled_handler ?req UnsealStateFailed 0 0 ?log of
            None \<Rightarrow> None
          | Some (evs, LoopReturn e) \<Rightarrow> Some (evs, example_deal\<lparr>Status := DealStatusUnsealing\<rparr>, e)
          | Some (evs, LoopDone) \<Rightarrow>
              Some (after evs (UnsealData_prepare stalled_handler (example_deal\<lparr>Status := DealStatusUnsealing\<rparr>) example_storage_deal)))"
    using UnsealData_reaches_loop[of stalled_handler example_deal example_storage_deal "''store-1''" "''transfer''"]
    by (simp add: stalled_handler_def example_handler_def loop_entry_log_def)
  then show ?thesis using loop by simp
qed

text \<open>
  C4, as stated, fails: the blockstore preparation fails with an error, the cancellation
  is saved, and \<open>UnsealData\<close> returns nil.
\<close>

theorem UnsealData_prepare_error_dropped:
  "env_PrepareBlockstore unprepared_handler 7 ''piece'' = Some (ErrNew ''shard not loaded'') \<and>
   UnsealData unprepared_handler example_deal =
     Some ([EvSaveDeal (example_deal\<lparr>Status := DealStatusUnsealing\<rparr>) None,
            EvGetDeal ''storage-proposal'',
            EvFindStorageForRead ''piece'',
            EvPrepareBlockstore 7 ''piece'',
            EvDeleteStore 7,
            EvCloseDataTransfer ''channel-1'',
            EvSaveDeal (example_deal\<lparr>Status := DealStatusCancelled\<rparr>) None],
           example_deal\<lparr>Status := DealStatusCancelled\<rparr>, None)"
  by (simp add: UnsealData_def UnsealData_prepare_def CancelDeal_def SaveDeal_def after_def Let_def
        unprepared_handler_def present_handler_def example_handler_def example_deal_fields
        example_storage_deal_fields)

text \<open>
  C4, amended. When \<open>UnsealData\<close> reaches the blockstore preparation (the piece is
  present, or the loop is left) and the preparation fails, it runs \<open>CancelDeal\<close> and
  returns its result: the deal is \<open>Cancelled\<close> when the teardown succeeds and
  \<open>Errored\<close> otherwise, the last call saves it, and the error returned is the one
  that save returns.
\<close>

theorem UnsealData_prepare_failure:
  assumes "retrievalDealStore_SaveDeal p (providerDeal\<lparr>Status := DealStatusUnsealing\<rparr>) = None"
    and "storageDealRepo_GetDeal p (SelStorageProposalCid providerDeal) = Inr deal"
    and "fst (pieceStorageMgr_FindStorageForRead p (Proposal_PieceCID (Proposal deal))) \<noteq> None \<or>
         (\<exists>wps pieceTransfer evs.
            pieceStorageMgr_FindStorageForWrite p (sint (PieceSize (Proposal deal))) = Inr wps \<and>
            wps_GetPieceTransfer p wps (Proposal_PieceCID (Proposal deal)) = Inr pieceTransfer \<and>
            CheckLoop p (unseal_request_of deal pieceTransfer) UnsealStateFailed 0 0
              (loop_entry_log providerDeal deal) = Some (evs, LoopDone))"
    and "env_PrepareBlockstore p (ID (DealProposal providerDeal)) (Proposal_PieceCID (Proposal deal)) = Some e"
  shows "\<exists>pre evs d r.
           UnsealData p providerDeal = Some (evs, d, r) \<and>
           (evs, d, r) =
             after (pre @ [EvPrepareBlockstore (ID (DealProposal providerDeal)) (Proposal_PieceCID (Proposal deal))])
               (CancelDeal p (providerDeal\<lparr>Status := DealStatusUnsealing\<rparr>)) \<and>
           Status d = (if teardown_succeeds p providerDeal then DealStatusCancelled else DealStatusErrored) \<and>
           r = retrievalDealStore_SaveDeal p d \<and>
           last evs = EvSaveDeal d r"
proof -
  let ?d1 = "providerDeal\<lparr>Status := DealStatusUnsealing\<rparr>"
  let ?ev = "EvPrepareBlockstore (ID (DealProposal providerDeal)) (Proposal_PieceCID (Proposal deal))"
  have prep: "UnsealData_prepare p ?d1 deal = after [?ev] (CancelDeal p ?d1)"
    using assms(4) by (simp add: UnsealData_prepare_def Let_def)
  have reach: "\<exists>pre. UnsealData p providerDeal = Some (after pre (UnsealData_prepare p ?d1 deal))"
    using assms(3)
  proof
    assume "fst (pieceStorageMgr_FindStorageForRead p (Proposal_PieceCID (Proposal deal))) \<noteq> None"
    then show ?thesis using assms(1,2) by (auto simp: UnsealData_def Let_def)
  next
    assume "\<exists>wps pieceTransfer evs.
            pieceStorageMgr_FindStorageForWrite p (sint (PieceSize (Proposal deal))) = Inr wps \<and>
            wps_GetPieceTransfer p wps (Proposal_PieceCID (Proposal deal)) = Inr pieceTransfer \<and>
            CheckLoop p (unseal_request_of deal pieceTransfer) UnsealStateFailed 0 0
              (loop_entry_log providerDeal deal) = Some (evs, LoopDone)"
    then obtain wps pieceTransfer evs where
      w: "pieceStorageMgr_FindStorageForWrite p (sint (PieceSize (Proposal deal))) = Inr wps"
      and t: "wps_GetPieceTransfer p wps (Proposal_PieceCID (Proposal deal)) = Inr pieceTransfer"
      and l: "CheckLoop p (unseal_request_of deal pieceTransfer) UnsealStateFailed 0 0
              (loop_entry_log providerDeal deal) = Some (evs, LoopDone)"
      by blast
    show ?thesis
    proof (cases "fst (pieceStorageMgr_FindStorageForRead p (Proposal_PieceCID (Proposal deal)))")
      case None
      show ?thesis
        using UnsealData_reaches_loop[OF assms(1,2) None w t] l
        by (auto simp: loop_entry_log_def)
    next
      case (Some st)
      then show ?thesis using assms(1,2) by (auto simp: UnsealData_def Let_def)
    qed
  qed
  then obtain pre where run: "UnsealData p providerDeal = Some (after (pre @ [?ev]) (CancelDeal p ?d1))"
    using prep by (cases "CancelDeal p ?d1") (auto simp: after_def)
  have same: "teardown_succeeds p ?d1 = teardown_succeeds p providerDeal"
    by (simp add: teardown_succeeds_def)
  obtain cevs where c: "CancelDeal p ?d1 =
     (cevs @ [EvSaveDeal (providerDeal\<lparr>Status := (if teardown_succeeds p providerDeal then DealStatusCancelled else DealStatusErrored)\<rparr>)
               (retrievalDealStore_SaveDeal p (providerDeal\<lparr>Status := (if teardown_succeeds p providerDeal then DealStatusCancelled else DealStatusErrored)\<rparr>))],
      providerDeal\<lparr>Status := (if teardown_succeeds p providerDeal then DealStatusCancelled else DealStatusErrored)\<rparr>,
      retrievalDealStore_SaveDeal p (providerDeal\<lparr>Status := (if teardown_succeeds p providerDeal then DealStatusCancelled else DealStatusErrored)\<rparr>))"
    using CancelDeal_result[of p ?d1] same by auto
  show ?thesis
    using run c
    by (intro exI[of _ pre] exI[of _ "(pre @ [?ev]) @ fst (CancelDeal p ?d1)"]
          exI[of _ "fst (snd (CancelDeal p ?d1))"] exI[of _ "snd (snd (CancelDeal p ?d1))"])
       (simp add: after_def)
qed

text \<open>The handler whose blockstore cannot be prepared.\<close>

theorem UnsealData_prepare_failure_witness:
  "\<exists>pre evs d r.
     UnsealData unprepared_handler example_deal = Some (evs, d, r) \<and>
     (evs, d, r) = after (pre @ [EvPrepareBlockstore 7 ''piece''])
                     (CancelDeal unprepared_handler (example_deal\<lparr>Status := DealStatusUnsealing\<rparr>)) \<and>
     Status d = DealStatusCancelled \<and> r = None \<and> last evs = EvSaveDeal d r"
  using UnsealData_prepare_failure[of unprepared_handler example_deal example_storage_deal
          "ErrNew ''shard not loaded''"]
  by (simp add: unprepared_handler_def present_handler_def example_handler_def example_deal_fields
        example_storage_deal_fields teardown_succeeds_def close_tolerated_def)

text \<open>
  C6. When the store is deleted and closing the channel reports that it has already
  terminated, \<open>CancelDeal\<close> sets \<open>Cancelled\<close>, saves the deal and returns what
  the save returns, not the close error. When deleting the store fails, or closing the
  channel fails with any other error, it sets \<open>Errored\<close>, saves the deal and returns
  what the save returns.
\<close>

theorem CancelDeal_teardown:
  "(env_DeleteStore p (ID (DealProposal deal)) = None \<and> ChannelID deal = Some ch \<and>
    env_CloseDataTransfer p ch = Some e \<and> errors_Is e ErrTerminated \<longrightarrow>
      CancelDeal p deal =
        ([EvDeleteStore (ID (DealProposal deal)), EvCloseDataTransfer ch,
          EvSaveDeal (deal\<lparr>Status := DealStatusCancelled\<rparr>)
            (retrievalDealStore_SaveDeal p (deal\<lparr>Status := DealStatusCancelled\<rparr>))],
         deal\<lparr>Status := DealStatusCancelled\<rparr>,
         retrievalDealStore_SaveDeal p (deal\<lparr>Status := DealStatusCancelled\<rparr>))) \<and>
   (env_DeleteStore p (ID (DealProposal deal)) \<noteq> None \<or>
    (ChannelID deal = Some ch \<and> env_CloseDataTransfer p ch = Some e \<and> \<not> errors_Is e ErrTerminated) \<longrightarrow>
      (\<exists>evs. CancelDeal p deal =
        (evs @ [EvSaveDeal (deal\<lparr>Status := DealStatusErrored\<rparr>)
                  (retrievalDealStore_SaveDeal p (deal\<lparr>Status := DealStatusErrored\<rparr>))],
         deal\<lparr>Status := DealStatusErrored\<rparr>,
         retrievalDealStore_SaveDeal p (deal\<lparr>Status := DealStatusErrored\<rparr>))))"
  by (auto simp: CancelDeal_def Error_def SaveDeal_def after_def Let_def split: option.splits)

text \<open>The example channel has already terminated; a variant cannot delete its store.\<close>

theorem CancelDeal_teardown_witness:
  "CancelDeal example_handler example_deal =
     ([EvDeleteStore 7, EvCloseDataTransfer ''channel-1'',
       EvSaveDeal (example_deal\<lparr>Status := DealStatusCancelled\<rparr>) None],
      example_deal\<lparr>Status := DealStatusCancelled\<rparr>, None) \<and>
   (\<exists>evs. CancelDeal (example_handler\<lparr>env_DeleteStore := (\<lambda>i. Some (ErrNew ''store busy''))\<rparr>) example_deal =
     (evs @ [EvSaveDeal (example_deal\<lparr>Status := DealStatusErrored\<rparr>) None],
      example_deal\<lparr>Status := DealStatusErrored\<rparr>, None))"
  using CancelDeal_teardown[of example_handler example_deal "''channel-1''" ErrTerminated]
    CancelDeal_teardown[of "example_handler\<lparr>env_DeleteStore := (\<lambda>i. Some (ErrNew ''store busy''))\<rparr>"
      example_deal "''channel-1''" ErrTerminated]
  by (simp add: example_handler_def example_deal_def new_deal_state_def example_proposal_def)

text \<open>
  C7. When the probe finds the piece in a backend, \<open>UnsealData\<close> returns without any
  call of the remote unseal service; if the blockstore is prepared, its fifth call saves
  the deal as \<open>Unsealed\<close>, and if that save is accepted the repository holds
  \<open>Unsealing\<close> and then \<open>Unsealed\<close>.
\<close>

theorem UnsealData_piece_present:
  assumes "retrievalDealStore_SaveDeal p (providerDeal\<lparr>Status := DealStatusUnsealing\<rparr>) = None"
    and "storageDealRepo_GetDeal p (SelStorageProposalCid providerDeal) = Inr deal"
    and "fst (pieceStorageMgr_FindStorageForRead p (Proposal_PieceCID (Proposal deal))) = Some st"
  shows "\<exists>evs d r. UnsealData p providerDeal = Some (evs, d, r) \<and> filter is_unseal_call evs = [] \<and>
           (env_PrepareBlockstore p (ID (DealProposal providerDeal)) (Proposal_PieceCID (Proposal deal)) = None \<longrightarrow>
              take 5 evs =
                [EvSaveDeal (providerDeal\<lparr>Status := DealStatusUnsealing\<rparr>) None,
                 EvGetDeal (SelStorageProposalCid providerDeal),
                 EvFindStorageForRead (Proposal_PieceCID (Proposal deal)),
                 EvPrepareBlockstore (ID (DealProposal providerDeal)) (Proposal_PieceCID (Proposal deal)),
                 EvSaveDeal (providerDeal\<lparr>Status := DealStatusUnsealed\<rparr>)
                   (retrievalDealStore_SaveDeal p (providerDeal\<lparr>Status := DealStatusUnsealed\<rparr>))] \<and>
              (retrievalDealStore_SaveDeal p (providerDeal\<lparr>Status := DealStatusUnsealed\<rparr>) = None \<longrightarrow>
                 take 2 (persisted evs) =
                   [providerDeal\<lparr>Status := DealStatusUnsealing\<rparr>,
                    providerDeal\<lparr>Status := DealStatusUnsealed\<rparr>]))"
proof -
  let ?d1 = "providerDeal\<lparr>Status := DealStatusUnsealing\<rparr>"
  let ?pre = "[EvSaveDeal ?d1 None, EvGetDeal (SelStorageProposalCid providerDeal),
               EvFindStorageForRead (Proposal_PieceCID (Proposal deal))]"
  obtain evs d r where prep: "UnsealData_prepare p ?d1 deal = (evs, d, r)"
    by (cases "UnsealData_prepare p ?d1 deal") auto
  have run: "UnsealData p providerDeal = Some (?pre @ evs, d, r)"
    using assms prep by (simp add: UnsealData_def Let_def after_def)
  have quiet: "filter is_unseal_call (?pre @ evs) = []"
    using UnsealData_prepare_no_unseal[of p ?d1 deal] prep by simp
  have tail: "take 2 evs =
                [EvPrepareBlockstore (ID (DealProposal providerDeal)) (Proposal_PieceCID (Proposal deal)),
                 EvSaveDeal (providerDeal\<lparr>Status := DealStatusUnsealed\<rparr>)
                   (retrievalDealStore_SaveDeal p (providerDeal\<lparr>Status := DealStatusUnsealed\<rparr>))]"
    if "env_PrepareBlockstore p (ID (DealProposal providerDeal)) (Proposal_PieceCID (Proposal deal)) = None"
    using prep that
    by (auto simp: UnsealData_prepare_def SaveDeal_def after_def Let_def split: option.splits)
  have saved: "take 2 (persisted (?pre @ evs)) = [?d1, providerDeal\<lparr>Status := DealStatusUnsealed\<rparr>]"
    if "env_PrepareBlockstore p (ID (DealProposal providerDeal)) (Proposal_PieceCID (Proposal deal)) = None"
      and "retrievalDealStore_SaveDeal p (providerDeal\<lparr>Status := DealStatusUnsealed\<rparr>) = None"
    using prep that
    by (auto simp: UnsealData_prepare_def SaveDeal_def after_def Let_def split: option.splits)
  show ?thesis
    using run quiet tail saved by (intro exI[of _ "?pre @ evs"] exI[of _ d] exI[of _ r]) simp
qed

text \<open>The handler whose piece is present.\<close>

theorem UnsealData_piece_present_witness:
  "\<exists>evs d r. UnsealData present_handler example_deal = Some (evs, d, r) \<and>
     filter is_unseal_call evs = [] \<and>
     take 2 (persisted evs) =
       [example_deal\<lparr>Status := DealStatusUnsealing\<rparr>, example_deal\<lparr>Status := DealStatusUnsealed\<rparr>]"
proof -
  have h1: "retrievalDealStore_SaveDeal present_handler d = None" for d
    by (simp add: present_handler_def example_handler_def)
  have h2: "storageDealRepo_GetDeal present_handler (SelStorageProposalCid example_deal) = Inr example_storage_deal"
    by (simp add: present_handler_def example_handler_def)
  have h3: "fst (pieceStorageMgr_FindStorageForRead present_handler
                   (Proposal_PieceCID (Proposal example_storage_deal))) = Some ''store-1''"
    by (simp add: present_handler_def example_handler_def)
  have h4: "env_PrepareBlockstore present_handler i c = None" for i c
    by (simp add: present_handler_def example_handler_def)
  show ?thesis
    using UnsealData_piece_present[OF h1 h2 h3] by (auto simp: h1 h4)
qed



section \<open>Provider request validator: proofs\<close>

lemma acceptDeal_loop_proposal:
  "acceptDeal_loop rv minerDeals deal ask = (evs, deal', ask') \<Longrightarrow>
   deal' = deal\<lparr>SelStorageProposalCid := SelStorageProposalCid deal'\<rparr>"
proof (induction minerDeals arbitrary: deal ask evs)
  case Nil
  then show ?case by simp
next
  case (Cons minerDeal minerDeals)
  then show ?case
    by (fastforce simp: Let_def split: sum.splits if_splits prod.splits)
qed

lemma acceptDeal_loop_no_save:
  "acceptDeal_loop rv minerDeals deal ask = (evs, r) \<Longrightarrow> filter is_save_call evs = []"
  by (induction minerDeals arbitrary: deal ask evs r)
     (fastforce simp: Let_def split: sum.splits prod.splits if_splits)+

lemma acceptDeal_no_save:
  "acceptDeal rv deal = (evs, r) \<Longrightarrow> filter is_save_call evs = []"
  by (auto simp: acceptDeal_def runDealDecisionLogic_def Let_def
        split: sum.splits prod.splits option.splits if_splits dest: acceptDeal_loop_no_save)

lemma acceptDeal_proposal:
  "acceptDeal rv deal = (evs, deal', status, err) \<Longrightarrow>
   deal' = deal\<lparr>SelStorageProposalCid := SelStorageProposalCid deal'\<rparr>"
  by (auto simp: acceptDeal_def Let_def split: sum.splits prod.splits option.splits if_splits
        dest: acceptDeal_loop_proposal)

lemma acceptDeal_status_price:
  assumes "acceptDeal rv deal = (evs, pds, status, None)"
  shows "(status = DealStatusFundsNeededUnseal \<longrightarrow> 0 < UnsealPrice (Params (DealProposal pds))) \<and>
         (status = DealStatusAccepted \<longrightarrow> \<not> 0 < UnsealPrice (Params (DealProposal pds)))"
  using assms
  by (auto simp: acceptDeal_def Let_def split: sum.splits prod.splits option.splits if_splits)

lemma bytesCompare_default:
  "Selector (Params proposal) = None \<Longrightarrow> bytesCompare rv proposal = allSelectorBytes rv"
  by (simp add: bytesCompare_def SelectorSpecified_def)

lemma example_proposal_fields:
  "PayloadCID example_proposal = ''payload''"
  "ID example_proposal = 7"
  "UnsealPrice (Params example_proposal) = 10"
  "Selector (Params example_proposal) = None"
  "PayloadCID free_proposal = ''payload''"
  "ID free_proposal = 7"
  "UnsealPrice (Params free_proposal) = 0"
  "Selector (Params free_proposal) = None"
  by (simp_all add: example_proposal_def free_proposal_def)

lemma example_validator_fields:
  "dagcbor_Encode example_validator n = Inr [0xa0]"
  "allSelectorBytes example_validator = [0xa0]"
  "retrievalDeal_SaveDeal example_validator d = None"
  "retrievalAsk_GetAsk example_validator a = (Some example_ask, None)"
  "dagcbor_Encode free_validator n = Inr [0xa0]"
  "allSelectorBytes free_validator = [0xa0]"
  "retrievalDeal_SaveDeal free_validator d = None"
  by (simp_all add: example_validator_def free_validator_def)

lemma example_accepted:
  "acceptDeal example_validator (new_deal_state ''receiver'' example_proposal False) =
     ([EvGetPieceInfoFromCid ''payload'' None, EvMinerProviderConfig ''f01000'', EvGetAsk ''f01000''],
      (new_deal_state ''receiver'' example_proposal False)\<lparr>SelStorageProposalCid := ''storage-proposal''\<rparr>,
      DealStatusFundsNeededUnseal, None)"
  by (simp add: acceptDeal_def example_validator_def example_storage_deal_def example_ask_def
        CheckDealParams_def runDealDecisionLogic_def new_deal_state_def example_proposal_def Let_def)

lemma free_accepted:
  "acceptDeal free_validator (new_deal_state ''receiver'' free_proposal False) =
     ([EvGetPieceInfoFromCid ''payload'' None, EvMinerProviderConfig ''f01000'', EvGetAsk ''f01000''],
      (new_deal_state ''receiver'' free_proposal False)\<lparr>SelStorageProposalCid := ''storage-proposal''\<rparr>,
      DealStatusAccepted, None)"
  by (simp add: acceptDeal_def example_validator_def example_storage_deal_def example_ask_def
        CheckDealParams_def runDealDecisionLogic_def new_deal_state_def example_proposal_def
        free_proposal_def free_validator_def Let_def)

subsection \<open>Properties of validatePull\<close>

text \<open>
  C3, as stated, fails. The ask's unseal price is 4 and the proposal offers 10: the
  payment owed is 10. And with the same ask a deal the filter refuses is
  \<open>Rejected\<close>, not \<open>FundsNeededUnseal\<close>.
\<close>

theorem validatePull_payment_owed_differs:
  "validatePull example_validator False ''receiver'' example_proposal False ''payload'' ''selector'' =
     ([EvGetPieceInfoFromCid ''payload'' None, EvMinerProviderConfig ''f01000'', EvGetAsk ''f01000'',
       EvSaveDeal ((new_deal_state ''receiver'' example_proposal False)
                     \<lparr>SelStorageProposalCid := ''storage-proposal'',
                      Status := DealStatusFundsNeededUnseal\<rparr>) None],
      Some \<lparr>Response_Status = DealStatusFundsNeededUnseal, Response_ID = 7, PaymentOwed = Some 10,
            Response_Message = []\<rparr>,
      Some ErrPause) \<and>
   retrievalAsk_GetAsk example_validator ''f01000'' = (Some example_ask, None) \<and>
   Ask_UnsealPrice example_ask = 4 \<and>
   validatePull (example_validator\<lparr>rdf := Some refusing_filter\<rparr>) False ''receiver'' example_proposal
       False ''payload'' ''selector'' =
     ([EvGetPieceInfoFromCid ''payload'' None, EvMinerProviderConfig ''f01000'', EvGetAsk ''f01000'',
       EvDealFilter],
      Some \<lparr>Response_Status = DealStatusRejected, Response_ID = 7, PaymentOwed = None,
            Response_Message = ''not accepting retrievals''\<rparr>,
      Some (ErrNew ''not accepting retrievals''))"
proof -
  have r: "acceptDeal (example_validator\<lparr>rdf := Some refusing_filter\<rparr>)
             (new_deal_state ''receiver'' example_proposal False) =
     ([EvGetPieceInfoFromCid ''payload'' None, EvMinerProviderConfig ''f01000'', EvGetAsk ''f01000'',
       EvDealFilter],
      (new_deal_state ''receiver'' example_proposal False)\<lparr>SelStorageProposalCid := ''storage-proposal''\<rparr>,
      DealStatusRejected, Some (ErrNew ''not accepting retrievals''))"
    by (simp add: acceptDeal_def example_validator_def example_storage_deal_def example_ask_def
        CheckDealParams_def runDealDecisionLogic_def new_deal_state_def example_proposal_def
        refusing_filter_def Let_def)
  show ?thesis
    by (simp add: validatePull_def example_accepted r example_proposal_fields bytesCompare_default
          example_validator_fields Let_def)
       (simp add: example_ask_def new_deal_state_def example_proposal_fields)
qed

text \<open>
  C3, amended. For a new request that passes the CID and selector checks, whose piece is
  found, for which the loop obtains an ask with a positive unseal price, whose terms pass
  \<open>CheckDealParams\<close> and which the deal filter accepts, the response has status
  \<open>FundsNeededUnseal\<close> and its payment owed is the unseal price of the proposal, which
  is at least the unseal price of the ask.
\<close>

theorem validatePull_funds_needed:
  assumes "PayloadCID proposal = baseCid"
    and "dagcbor_Encode rv selector = Inr (bytesCompare rv proposal)"
    and "pieceInfo_GetPieceInfoFromCid rv (PayloadCID proposal) (PieceCID (Params proposal)) = Inr minerDeals"
    and "acceptDeal_loop rv minerDeals (new_deal_state receiver proposal legacyProtocol) None =
           (evs, pds, Some ask)"
    and "0 < Ask_UnsealPrice ask"
    and "CheckDealParams ask (PricePerByte (Params proposal)) (PaymentInterval (Params proposal))
           (PaymentIntervalIncrease (Params proposal)) (UnsealPrice (Params proposal)) = None"
    and "snd (runDealDecisionLogic rv pds) = (True, reason, None)"
  shows "\<exists>log response e.
           validatePull rv False receiver proposal legacyProtocol baseCid selector = (log, Some response, e) \<and>
           Response_Status response = DealStatusFundsNeededUnseal \<and>
           PaymentOwed response = Some (UnsealPrice (Params proposal)) \<and>
           Ask_UnsealPrice ask \<le> UnsealPrice (Params proposal)"
proof -
  have same: "DealProposal pds = proposal"
    using acceptDeal_loop_proposal[OF assms(4)]
    by (metis ProviderDealState.select_convs(1) ProviderDealState.surjective
          ProviderDealState.update_convs(2) new_deal_state_def)
  have price: "Ask_UnsealPrice ask \<le> UnsealPrice (Params proposal)"
    using assms(6) by (simp add: CheckDealParams_def split: if_splits)
  obtain ev3 where d: "runDealDecisionLogic rv pds = (ev3, True, reason, None)"
    using assms(7) by (cases "runDealDecisionLogic rv pds") auto
  have acc: "acceptDeal rv (new_deal_state receiver proposal legacyProtocol) =
          ([EvGetPieceInfoFromCid (PayloadCID proposal) (PieceCID (Params proposal))] @ evs @ ev3,
           pds, DealStatusFundsNeededUnseal, None)"
    using assms(3,4,5,6) d same price
    by (simp add: acceptDeal_def Let_def new_deal_state_def)
  have pos: "0 < UnsealPrice (Params proposal)"
    using assms(5) price by simp
  show ?thesis
    using assms(1,2) acc same price pos
    by (cases "retrievalDeal_SaveDeal rv (pds\<lparr>Status := DealStatusFundsNeededUnseal, TotalSent := 0\<rparr>)")
       (simp_all add: validatePull_def Let_def)
qed

text \<open>The example validator and proposal.\<close>

theorem validatePull_funds_needed_witness:
  "\<exists>log response e.
     validatePull example_validator False ''receiver'' example_proposal False ''payload'' ''selector'' =
       (log, Some response, e) \<and>
     Response_Status response = DealStatusFundsNeededUnseal \<and>
     PaymentOwed response = Some 10 \<and> Ask_UnsealPrice example_ask \<le> 10"
  using validatePull_funds_needed[of example_proposal "''payload''" example_validator "''selector''"
          "[example_storage_deal]" "''receiver''" False
          "[EvMinerProviderConfig ''f01000'', EvGetAsk ''f01000'']"
          "(new_deal_state ''receiver'' example_proposal False)\<lparr>SelStorageProposalCid := ''storage-proposal''\<rparr>"
          example_ask "[]"]
  by (simp add: example_validator_fields example_proposal_fields bytesCompare_default)
     (simp add: example_validator_def example_storage_deal_def example_ask_def CheckDealParams_def
        runDealDecisionLogic_def example_proposal_def Let_def)

text \<open>
  C5, as stated, fails. A deal the filter refuses is answered \<open>Rejected\<close> and no deal
  record is saved. And a deal without unseal price is answered \<open>Accepted\<close> while the
  record saved has the status \<open>New\<close>.
\<close>

theorem validatePull_outcome_not_persisted:
  "validatePull (example_validator\<lparr>rdf := Some refusing_filter\<rparr>) False ''receiver'' example_proposal
       False ''payload'' ''selector'' =
     ([EvGetPieceInfoFromCid ''payload'' None, EvMinerProviderConfig ''f01000'', EvGetAsk ''f01000'',
       EvDealFilter],
      Some \<lparr>Response_Status = DealStatusRejected, Response_ID = 7, PaymentOwed = None,
            Response_Message = ''not accepting retrievals''\<rparr>,
      Some (ErrNew ''not accepting retrievals'')) \<and>
   validatePull free_validator False ''receiver'' free_proposal False ''payload'' ''selector'' =
     ([EvGetPieceInfoFromCid ''payload'' None, EvMinerProviderConfig ''f01000'', EvGetAsk ''f01000'',
       EvSaveDeal ((new_deal_state ''receiver'' free_proposal False)
                     \<lparr>SelStorageProposalCid := ''storage-proposal'', Status := DealStatusNew,
                      FundsReceived := Some 0\<rparr>) None],
      Some \<lparr>Response_Status = DealStatusAccepted, Response_ID = 7, PaymentOwed = None,
            Response_Message = []\<rparr>,
      Some ErrPause)"
proof -
  have r: "acceptDeal (example_validator\<lparr>rdf := Some refusing_filter\<rparr>)
             (new_deal_state ''receiver'' example_proposal False) =
     ([EvGetPieceInfoFromCid ''payload'' None, EvMinerProviderConfig ''f01000'', EvGetAsk ''f01000'',
       EvDealFilter],
      (new_deal_state ''receiver'' example_proposal False)\<lparr>SelStorageProposalCid := ''storage-proposal''\<rparr>,
      DealStatusRejected, Some (ErrNew ''not accepting retrievals''))"
    by (simp add: acceptDeal_def example_validator_def example_storage_deal_def example_ask_def
        CheckDealParams_def runDealDecisionLogic_def new_deal_state_def example_proposal_def
        refusing_filter_def Let_def)
  show ?thesis
    by (simp add: validatePull_def free_accepted r example_proposal_fields bytesCompare_default
          example_validator_fields Let_def)
       (simp add: new_deal_state_def example_proposal_fields)
qed

lemma acceptDeal_error_status:
  assumes "acceptDeal rv deal = (evs, pds, status, Some e)"
  shows "status = DealStatusDealNotFound \<or> status = DealStatusRejected \<or> status = DealStatusErrored"
  using assms
  by (auto simp: acceptDeal_def Let_def split: sum.splits prod.splits option.splits if_splits)

lemma example_refused:
  "acceptDeal (example_validator\<lparr>rdf := Some refusing_filter\<rparr>)
             (new_deal_state ''receiver'' example_proposal False) =
     ([EvGetPieceInfoFromCid ''payload'' None, EvMinerProviderConfig ''f01000'', EvGetAsk ''f01000'',
       EvDealFilter],
      (new_deal_state ''receiver'' example_proposal False)\<lparr>SelStorageProposalCid := ''storage-proposal''\<rparr>,
      DealStatusRejected, Some (ErrNew ''not accepting retrievals''))"
  by (simp add: acceptDeal_def example_validator_def example_storage_deal_def example_ask_def
        CheckDealParams_def runDealDecisionLogic_def new_deal_state_def example_proposal_def
        refusing_filter_def Let_def)

text \<open>
  C5, amended. For a new request that passes the CID and selector checks: when
  \<open>acceptDeal\<close> returns an error (with status \<open>DealNotFound\<close>, \<open>Rejected\<close> or
  \<open>Errored\<close>), \<open>validatePull\<close> returns the response with that status and the
  error's message, and the error, and nothing is saved; when \<open>acceptDeal\<close> returns
  \<open>Accepted\<close> or \<open>FundsNeededUnseal\<close> without error, the last call saves the deal
  record, once, with the proposal, with \<open>TotalSent\<close> zero, with \<open>FundsReceived\<close> set
  to zero exactly when the outcome is \<open>Accepted\<close>, and with status
  \<open>FundsNeededUnseal\<close> when that is the outcome, and \<open>validatePull\<close> returns the
  response with the outcome and the pause instruction, or the error of the save.
\<close>

theorem validatePull_persists:
  assumes "PayloadCID proposal = baseCid"
    and "dagcbor_Encode rv selector = Inr (bytesCompare rv proposal)"
    and "acceptDeal rv (new_deal_state receiver proposal legacyProtocol) = (evs, pds, status, err)"
  shows "(\<forall>e. err = Some e \<longrightarrow>
            validatePull rv False receiver proposal legacyProtocol baseCid selector =
              (evs,
               Some \<lparr>Response_Status = status, Response_ID = ID proposal, PaymentOwed = None,
                     Response_Message = Error_text e\<rparr>,
               Some e) \<and>
            filter is_save_call evs = [] \<and>
            (status = DealStatusDealNotFound \<or> status = DealStatusRejected \<or> status = DealStatusErrored)) \<and>
         (err = None \<and> (status = DealStatusAccepted \<or> status = DealStatusFundsNeededUnseal) \<longrightarrow>
            (\<exists>saved.
               validatePull rv False receiver proposal legacyProtocol baseCid selector =
                 (evs @ [EvSaveDeal saved (retrievalDeal_SaveDeal rv saved)],
                  Some \<lparr>Response_Status = status, Response_ID = ID proposal,
                        PaymentOwed =
                          (if status = DealStatusFundsNeededUnseal then Some (UnsealPrice (Params proposal))
                           else None),
                        Response_Message =
                          (case retrievalDeal_SaveDeal rv saved of None \<Rightarrow> [] | Some e \<Rightarrow> Error_text e)\<rparr>,
                  (case retrievalDeal_SaveDeal rv saved of None \<Rightarrow> Some ErrPause | Some e \<Rightarrow> Some e)) \<and>
               filter is_save_call evs = [] \<and>
               DealProposal saved = proposal \<and>
               TotalSent saved = 0 \<and>
               (FundsReceived saved = Some 0) = (status = DealStatusAccepted) \<and>
               (status = DealStatusFundsNeededUnseal \<longrightarrow> Status saved = DealStatusFundsNeededUnseal)))"
proof -
  have quiet: "filter is_save_call evs = []"
    using acceptDeal_no_save[OF assms(3)] .
  have same: "DealProposal pds = proposal"
    using acceptDeal_proposal[OF assms(3)]
    by (metis ProviderDealState.select_convs(1) ProviderDealState.surjective
          ProviderDealState.update_convs(2) new_deal_state_def)
  have fresh: "FundsReceived pds = None"
    using acceptDeal_proposal[OF assms(3)]
    by (metis ProviderDealState.select_convs(7) ProviderDealState.surjective
          ProviderDealState.update_convs(2) new_deal_state_def)
  have refused: "validatePull rv False receiver proposal legacyProtocol baseCid selector =
              (evs,
               Some \<lparr>Response_Status = status, Response_ID = ID proposal, PaymentOwed = None,
                     Response_Message = Error_text e\<rparr>,
               Some e) \<and>
            filter is_save_call evs = [] \<and>
            (status = DealStatusDealNotFound \<or> status = DealStatusRejected \<or> status = DealStatusErrored)"
    if "err = Some e" for e
  proof -
    have st: "status = DealStatusDealNotFound \<or> status = DealStatusRejected \<or> status = DealStatusErrored"
      using acceptDeal_error_status[of rv _ evs pds status e] assms(3) that by simp
    then have "status \<noteq> DealStatusFundsNeededUnseal" by auto
    then show ?thesis
      using that assms quiet st by (simp add: validatePull_def Let_def)
  qed
  have kept: "\<exists>saved.
               validatePull rv False receiver proposal legacyProtocol baseCid selector =
                 (evs @ [EvSaveDeal saved (retrievalDeal_SaveDeal rv saved)],
                  Some \<lparr>Response_Status = status, Response_ID = ID proposal,
                        PaymentOwed =
                          (if status = DealStatusFundsNeededUnseal then Some (UnsealPrice (Params proposal))
                           else None),
                        Response_Message =
                          (case retrievalDeal_SaveDeal rv saved of None \<Rightarrow> [] | Some e \<Rightarrow> Error_text e)\<rparr>,
                  (case retrievalDeal_SaveDeal rv saved of None \<Rightarrow> Some ErrPause | Some e \<Rightarrow> Some e)) \<and>
               filter is_save_call evs = [] \<and>
               DealProposal saved = proposal \<and>
               TotalSent saved = 0 \<and>
               (FundsReceived saved = Some 0) = (status = DealStatusAccepted) \<and>
               (status = DealStatusFundsNeededUnseal \<longrightarrow> Status saved = DealStatusFundsNeededUnseal)"
    if "err = None" and "status = DealStatusAccepted \<or> status = DealStatusFundsNeededUnseal"
  proof (cases "0 < UnsealPrice (Params (DealProposal pds))")
    case True
    then have st: "status = DealStatusFundsNeededUnseal"
      using that acceptDeal_status_price[of rv _ evs pds status] assms(3) by auto
    show ?thesis
      using assms(1,2,3) that(1) True st quiet same fresh
      by (intro exI[of _ "pds\<lparr>Status := DealStatusFundsNeededUnseal, TotalSent := 0\<rparr>"])
         (auto simp: validatePull_def Let_def split: option.splits)
  next
    case False
    then have st: "status = DealStatusAccepted"
      using that acceptDeal_status_price[of rv _ evs pds status] assms(3) by auto
    show ?thesis
      using assms(1,2,3) that(1) False st quiet same
      by (intro exI[of _ "pds\<lparr>TotalSent := 0, FundsReceived := Some 0\<rparr>"])
         (auto simp: validatePull_def Let_def split: option.splits)
  qed
  show ?thesis using refused kept by blast
qed

text \<open>The example proposal, whose unseal price is positive, accepted and refused.\<close>

theorem validatePull_persists_witness:
  "(\<exists>saved.
      validatePull example_validator False ''receiver'' example_proposal False ''payload'' ''selector'' =
        ([EvGetPieceInfoFromCid ''payload'' None, EvMinerProviderConfig ''f01000'', EvGetAsk ''f01000'']
           @ [EvSaveDeal saved None],
         Some \<lparr>Response_Status = DealStatusFundsNeededUnseal, Response_ID = 7, PaymentOwed = Some 10,
               Response_Message = []\<rparr>,
         Some ErrPause) \<and>
      DealProposal saved = example_proposal \<and> TotalSent saved = 0 \<and> FundsReceived saved \<noteq> Some 0 \<and>
      Status saved = DealStatusFundsNeededUnseal) \<and>
   validatePull (example_validator\<lparr>rdf := Some refusing_filter\<rparr>) False ''receiver'' example_proposal
       False ''payload'' ''selector'' =
     ([EvGetPieceInfoFromCid ''payload'' None, EvMinerProviderConfig ''f01000'', EvGetAsk ''f01000'',
       EvDealFilter],
      Some \<lparr>Response_Status = DealStatusRejected, Response_ID = 7, PaymentOwed = None,
            Response_Message = ''not accepting retrievals''\<rparr>,
      Some (ErrNew ''not accepting retrievals''))"
proof -
  have a: "\<exists>saved.
      validatePull example_validator False ''receiver'' example_proposal False ''payload'' ''selector'' =
        ([EvGetPieceInfoFromCid ''payload'' None, EvMinerProviderConfig ''f01000'', EvGetAsk ''f01000'']
           @ [EvSaveDeal saved None],
         Some \<lparr>Response_Status = DealStatusFundsNeededUnseal, Response_ID = 7, PaymentOwed = Some 10,
               Response_Message = []\<rparr>,
         Some ErrPause) \<and>
      DealProposal saved = example_proposal \<and> TotalSent saved = 0 \<and> FundsReceived saved \<noteq> Some 0 \<and>
      Status saved = DealStatusFundsNeededUnseal"
    using validatePull_persists[of example_proposal "''payload''" example_validator "''selector''"
          "''receiver''" False, OF _ _ example_accepted]
    by (auto simp: example_validator_fields example_proposal_fields bytesCompare_default)
  have b: "validatePull (example_validator\<lparr>rdf := Some refusing_filter\<rparr>) False ''receiver'' example_proposal
       False ''payload'' ''selector'' =
     ([EvGetPieceInfoFromCid ''payload'' None, EvMinerProviderConfig ''f01000'', EvGetAsk ''f01000'',
       EvDealFilter],
      Some \<lparr>Response_Status = DealStatusRejected, Response_ID = 7, PaymentOwed = None,
            Response_Message = ''not accepting retrievals''\<rparr>,
      Some (ErrNew ''not accepting retrievals''))"
    using validatePull_persists[of example_proposal "''payload''"
          "example_validator\<lparr>rdf := Some refusing_filter\<rparr>" "''selector''"
          "''receiver''" False, OF _ _ example_refused]
    by (simp add: example_validator_fields example_proposal_fields bytesCompare_default)
  show ?thesis using a b by blast
qed

text \<open>
  C8, as stated, fails: a restart request whose base CID is not the proposal's payload
  CID is answered with an error.
\<close>

theorem validatePull_restart_rejected:
  "validatePull example_validator True ''receiver'' example_proposal False ''another payload'' ''selector'' =
     ([], None, Some (ErrNew ''incorrect CID for this proposal''))"
  by (simp add: validatePull_def example_proposal_fields)

text \<open>
  C8, amended. Validation of a restart request makes no call on a collaborator and
  returns no response; it returns no error either exactly when the base CID is the
  proposal's payload CID and the encoded selector is the expected one.
\<close>

theorem validatePull_restart:
  "(\<exists>e. validatePull rv True receiver proposal legacyProtocol baseCid selector = ([], None, e)) \<and>
   (validatePull rv True receiver proposal legacyProtocol baseCid selector = ([], None, None)) =
     (PayloadCID proposal = baseCid \<and> dagcbor_Encode rv selector = Inr (bytesCompare rv proposal))"
  by (auto simp: validatePull_def split: sum.splits)

text \<open>A restart of the example proposal with its own payload CID.\<close>

theorem validatePull_restart_witness:
  "validatePull example_validator True ''receiver'' example_proposal False ''payload'' ''selector'' =
     ([], None, None)"
  using validatePull_restart[of example_validator "''receiver''" example_proposal False "''payload''" "''selector''"]
  by (simp add: example_validator_fields example_proposal_fields bytesCompare_default)

section \<open>Voucher selector: proofs\<close>

lemma first_maximal_skip_smaller:
  assumes "Amount (store b) < Amount (store c)"
  shows "first_maximal store (b # c # cs) = first_maximal store (c # cs)"
proof -
  define P where "P = (\<lambda>v. \<forall>u \<in> set (b # c # cs). Amount (store u) \<le> Amount (store v))"
  define Q where "Q = (\<lambda>v. \<forall>u \<in> set (c # cs). Amount (store u) \<le> Amount (store v))"
  have "P v = Q v" for v
    using assms unfolding P_def Q_def by auto
  then have same: "P = Q" by auto
  have "\<not> P b"
    using assms unfolding P_def by auto
  then have "find P (b # c # cs) = find P (c # cs)" by simp
  then show ?thesis
    unfolding first_maximal_def P_def[symmetric] Q_def[symmetric] using same by simp
qed

lemma first_maximal_drop_not_larger:
  assumes "\<not> Amount (store b) < Amount (store c)"
  shows "first_maximal store (b # c # cs) = first_maximal store (b # cs)"
proof -
  define P where "P = (\<lambda>v. \<forall>u \<in> set (b # c # cs). Amount (store u) \<le> Amount (store v))"
  define Q where "Q = (\<lambda>v. \<forall>u \<in> set (b # cs). Amount (store u) \<le> Amount (store v))"
  have "P v = Q v" for v
    using assms unfolding P_def Q_def by auto
  then have same: "P = Q" by auto
  have "\<not> P c" if "\<not> P b"
  proof
    assume "P c"
    then have "Amount (store b) \<le> Amount (store c)" unfolding P_def by simp
    then have "Amount (store b) = Amount (store c)" using assms by simp
    then have "P b" using \<open>P c\<close> unfolding P_def by simp
    then show False using that by simp
  qed
  then have "find P (b # c # cs) = find P (b # cs)" by simp
  then show ?thesis
    unfolding first_maximal_def P_def[symmetric] Q_def[symmetric] using same by simp
qed

lemma keep_best_Some: "keep_best store (Some b) cs = first_maximal store (b # cs)"
proof (induction cs arbitrary: b)
  case Nil
  show ?case by (simp add: first_maximal_def)
next
  case (Cons c cs)
  show ?case
    using Cons.IH[of c] Cons.IH[of b]
    by (simp add: first_maximal_skip_smaller first_maximal_drop_not_larger)
qed

lemma keep_best_None: "keep_best store None cs = first_maximal store cs"
  by (cases cs) (simp_all add: keep_best_Some first_maximal_def)

lemma BestSpendableByLane_loop_keeps:
  assumes "\<forall>v \<in> set vouchers. \<not> isl (PaychVoucherCheckSpendable api ch v)"
  shows "BestSpendableByLane_loop api store ch vouchers bestByLane =
         Inr (\<lambda>lane. keep_best store (bestByLane lane) (spendable_on_lane api store ch vouchers lane))"
  using assms
proof (induction vouchers arbitrary: bestByLane)
  case Nil
  show ?case by (simp add: spendable_on_lane_def)
next
  case (Cons v vouchers)
  then obtain spendable where sp: "PaychVoucherCheckSpendable api ch v = Inr spendable"
    by (cases "PaychVoucherCheckSpendable api ch v") auto
  have rest: "\<forall>v \<in> set vouchers. \<not> isl (PaychVoucherCheckSpendable api ch v)"
    using Cons.prems by simp
  note IH = Cons.IH[OF rest]
  show ?case
  proof (cases spendable)
    case False
    then show ?thesis using sp IH by (simp add: spendable_on_lane_def)
  next
    case True
    show ?thesis
      using sp True IH
      by (auto simp: spendable_on_lane_def fun_eq_iff split: option.splits)
  qed
qed

lemma BestSpendableByLane_loop_fails:
  assumes "\<exists>v \<in> set vouchers. isl (PaychVoucherCheckSpendable api ch v)"
  shows "isl (BestSpendableByLane_loop api store ch vouchers bestByLane)"
  using assms
  by (induction vouchers arbitrary: bestByLane) (auto split: sum.splits option.splits)

lemma first_maximal_None: "(first_maximal store vs = None) = (vs = [])"
proof (cases vs)
  case Nil
  then show ?thesis by (simp add: first_maximal_def)
next
  case (Cons v vs')
  let ?A = "(\<lambda>u. Amount (store u)) ` set vs"
  have fin: "finite ?A" and ne: "?A \<noteq> {}" using Cons by auto
  have "Max ?A \<in> ?A" using Max_in[OF fin ne] .
  then obtain w where w1: "w \<in> set vs" and w2: "Amount (store w) = Max ?A" by auto
  have "\<forall>u \<in> set vs. Amount (store u) \<le> Amount (store w)"
    using Max_ge[OF fin] w2 by auto
  with w1 have "first_maximal store vs \<noteq> None"
    unfolding first_maximal_def find_None_iff by blast
  then show ?thesis using Cons by simp
qed

lemma first_maximal_Some:
  assumes "first_maximal store vs = Some v"
  shows "\<exists>i < length vs. vs ! i = v \<and> (\<forall>u \<in> set vs. Amount (store u) \<le> Amount (store v)) \<and>
           (\<forall>j < i. Amount (store (vs ! j)) < Amount (store v))"
proof -
  obtain i where i: "i < length vs" "vs ! i = v"
      "\<forall>u \<in> set vs. Amount (store u) \<le> Amount (store v)"
      "\<forall>j < i. \<not> (\<forall>u \<in> set vs. Amount (store u) \<le> Amount (store (vs ! j)))"
    using assms unfolding first_maximal_def find_Some_iff by blast
  have "Amount (store (vs ! j)) < Amount (store v)" if "j < i" for j
  proof (rule ccontr)
    assume "\<not> Amount (store (vs ! j)) < Amount (store v)"
    then have "\<forall>u \<in> set vs. Amount (store u) \<le> Amount (store (vs ! j))"
      using i(3) by auto
    then show False using i(4) that by blast
  qed
  then show ?thesis using i by blast
qed

text \<open>
  C9. \<open>BestSpendableByLane\<close> leaves the voucher store as it is. It returns an error
  exactly when the voucher list call fails or the spendability check fails for a voucher
  of the list. Otherwise its map is the selection of the specification: a lane is
  absent exactly when it has no spendable voucher, and a lane's entry is a spendable
  voucher of the lane whose amount no other exceeds, every spendable voucher of the lane
  before it in the list having a smaller amount.
\<close>

theorem BestSpendableByLane_selects:
  "snd (BestSpendableByLane api store ch) = store \<and>
   isl (fst (BestSpendableByLane api store ch)) =
     (case PaychVoucherList api ch of
        Inl e \<Rightarrow> True
      | Inr vouchers \<Rightarrow> \<exists>v \<in> set vouchers. isl (PaychVoucherCheckSpendable api ch v)) \<and>
   (\<forall>vouchers bestByLane.
      PaychVoucherList api ch = Inr vouchers \<and> fst (BestSpendableByLane api store ch) = Inr bestByLane \<longrightarrow>
        bestByLane = best_spendable_spec api store ch vouchers \<and>
        (\<forall>lane. (bestByLane lane = None) = (spendable_on_lane api store ch vouchers lane = [])) \<and>
        (\<forall>lane v. bestByLane lane = Some v \<longrightarrow>
           (\<exists>i < length (spendable_on_lane api store ch vouchers lane).
              spendable_on_lane api store ch vouchers lane ! i = v \<and>
              (\<forall>u \<in> set (spendable_on_lane api store ch vouchers lane). Amount (store u) \<le> Amount (store v)) \<and>
              (\<forall>j < i. Amount (store (spendable_on_lane api store ch vouchers lane ! j)) < Amount (store v)))))"
proof (intro conjI allI impI)
  show "snd (BestSpendableByLane api store ch) = store"
    by (simp add: BestSpendableByLane_def split: sum.splits)
next
  show "isl (fst (BestSpendableByLane api store ch)) =
     (case PaychVoucherList api ch of
        Inl e \<Rightarrow> True
      | Inr vouchers \<Rightarrow> \<exists>v \<in> set vouchers. isl (PaychVoucherCheckSpendable api ch v))"
  proof (cases "PaychVoucherList api ch")
    case (Inl e)
    then show ?thesis by (simp add: BestSpendableByLane_def)
  next
    case (Inr vouchers)
    show ?thesis
    proof (cases "\<exists>v \<in> set vouchers. isl (PaychVoucherCheckSpendable api ch v)")
      case True
      then show ?thesis
        using Inr BestSpendableByLane_loop_fails[of vouchers api ch store Map.empty]
        by (simp add: BestSpendableByLane_def)
    next
      case False
      then show ?thesis
        using Inr BestSpendableByLane_loop_keeps[of vouchers api ch store Map.empty]
        by (simp add: BestSpendableByLane_def)
    qed
  qed
next
  fix vouchers bestByLane
  assume a: "PaychVoucherList api ch = Inr vouchers \<and> fst (BestSpendableByLane api store ch) = Inr bestByLane"
  then have a1: "PaychVoucherList api ch = Inr vouchers"
    and a2: "fst (BestSpendableByLane api store ch) = Inr bestByLane" by simp_all
  have loop: "BestSpendableByLane_loop api store ch vouchers Map.empty = Inr bestByLane"
    using a2 by (simp add: BestSpendableByLane_def a1)
  have ok: "\<forall>v \<in> set vouchers. \<not> isl (PaychVoucherCheckSpendable api ch v)"
    using loop BestSpendableByLane_loop_fails[of vouchers api ch store Map.empty] by auto
  show spec: "bestByLane = best_spendable_spec api store ch vouchers"
    using loop BestSpendableByLane_loop_keeps[OF ok, of store Map.empty]
    by (simp add: best_spendable_spec_def keep_best_None)
  show "(bestByLane lane = None) = (spendable_on_lane api store ch vouchers lane = [])" for lane
    using spec by (simp add: best_spendable_spec_def first_maximal_None)
  show "\<exists>i < length (spendable_on_lane api store ch vouchers lane).
              spendable_on_lane api store ch vouchers lane ! i = v \<and>
              (\<forall>u \<in> set (spendable_on_lane api store ch vouchers lane). Amount (store u) \<le> Amount (store v)) \<and>
              (\<forall>j < i. Amount (store (spendable_on_lane api store ch vouchers lane ! j)) < Amount (store v))"
    if "bestByLane lane = Some v" for lane v
    using that spec first_maximal_Some[of store "spendable_on_lane api store ch vouchers lane" v]
    by (simp add: best_spendable_spec_def)
qed

text \<open>The example of the specification: lane 1 keeps the voucher of amount 9, lane 2 is absent.\<close>

theorem BestSpendableByLane_selects_witness:
  "\<exists>bestByLane. BestSpendableByLane example_api example_store ''channel'' = (Inr bestByLane, example_store) \<and>
     bestByLane 1 = Some 1 \<and> Amount (example_store 1) = 9 \<and> bestByLane 2 = None"
proof -
  have list: "PaychVoucherList example_api ''channel'' = Inr [0, 1, 2]"
    by (simp add: example_api_def)
  have "\<not> isl (fst (BestSpendableByLane example_api example_store ''channel''))"
    using BestSpendableByLane_selects[of example_api example_store "''channel''"] list
    by (simp add: example_api_def)
  then obtain bestByLane where m: "fst (BestSpendableByLane example_api example_store ''channel'') = Inr bestByLane"
    by (cases "fst (BestSpendableByLane example_api example_store ''channel'')") auto
  have spec: "bestByLane = best_spendable_spec example_api example_store ''channel'' [0, 1, 2]"
    and st: "snd (BestSpendableByLane example_api example_store ''channel'') = example_store"
    using BestSpendableByLane_selects[of example_api example_store "''channel''"] list m by blast+
  have "bestByLane 1 = Some 1" "bestByLane 2 = None"
    unfolding spec
    by (simp_all add: best_spendable_spec_def spendable_on_lane_def first_maximal_def example_api_def
          example_store_def)
  then show ?thesis
    using m st by (intro exI[of _ bestByLane]) (simp add: prod_eq_iff example_store_def)
qed

end
